theory Spec2Isabelle
  imports Complex_Main "HOL-Library.Word" "HOL-Library.Signed_Division"
begin

section \<open>Pixels and bitmaps\<close>

text \<open>
  A bitmap is a grid of pixels with four 8-bit channels. The decoded picture behind
  \<^verbatim>\<open>img\<close> (an \<^verbatim>\<open>HTMLImageElement\<close>) and the output bitmap of the canvas are both
  bitmaps: a width, a height and the rows of pixels, top row first.
\<close>

type_synonym channel = "8 word"

datatype rgba = RGBA (red: channel) (green: channel) (blue: channel) (alpha: channel)

record bitmap =
  bwidth :: nat
  bheight :: nat
  bdata :: "rgba list list"

definition wf_bitmap :: "bitmap \<Rightarrow> bool" where
  "wf_bitmap b \<longleftrightarrow>
     length (bdata b) = bheight b \<and> list_all (\<lambda>row. length row = bwidth b) (bdata b)"

definition px :: "bitmap \<Rightarrow> nat \<Rightarrow> nat \<Rightarrow> rgba" where
  "px b x y = bdata b ! y ! x"

definition tabulate :: "nat \<Rightarrow> nat \<Rightarrow> (nat \<Rightarrow> nat \<Rightarrow> rgba) \<Rightarrow> bitmap" where
  "tabulate w h f =
     \<lparr>bwidth = w, bheight = h, bdata = map (\<lambda>y. map (\<lambda>x. f x y) [0..<w]) [0..<h]\<rparr>"

definition transparent_black :: rgba where
  "transparent_black = RGBA 0 0 0 0"

definition blank :: "nat \<Rightarrow> nat \<Rightarrow> bitmap" where
  "blank w h = tabulate w h (\<lambda>x y. transparent_black)"

text \<open>A bitmap is opaque when every pixel has the full alpha, 255.\<close>

definition opaque :: "bitmap \<Rightarrow> bool" where
  "opaque b \<longleftrightarrow> list_all (list_all (\<lambda>p. alpha p = 255)) (bdata b)"

section \<open>Colour in the canvas\<close>

text \<open>
  The canvas keeps its pixels premultiplied, in 8 bits: a colour channel \<open>c\<close> of a
  pixel with alpha \<open>a\<close> is stored as \<open>c * a / 255\<close>, rounded to the nearest whole
  number. Reading the canvas back (\<^verbatim>\<open>toDataURL\<close>, \<^verbatim>\<open>getImageData\<close>) divides by
  alpha again. An opaque pixel survives the round trip; a translucent one loses
  precision, and a fully transparent one comes back as transparent black. The
  layers a drawing goes through hold premultiplied pixels as well.
\<close>

type_synonym layer = "int \<Rightarrow> int \<Rightarrow> rgba"

definition clamp8 :: "int \<Rightarrow> nat" where
  "clamp8 v = nat (max 0 (min 255 v))"

definition mul8 :: "nat \<Rightarrow> nat \<Rightarrow> nat" where
  "mul8 c a = (2 * c * a + 255) div 510"

definition div8 :: "nat \<Rightarrow> nat \<Rightarrow> nat" where
  "div8 c a = min 255 ((510 * c + a) div (2 * a))"

definition premultiply :: "rgba \<Rightarrow> rgba" where
  "premultiply p =
     RGBA (of_nat (mul8 (unat (red p)) (unat (alpha p))))
          (of_nat (mul8 (unat (green p)) (unat (alpha p))))
          (of_nat (mul8 (unat (blue p)) (unat (alpha p))))
          (alpha p)"

definition unpremultiply :: "rgba \<Rightarrow> rgba" where
  "unpremultiply p =
     (if alpha p = 0 then transparent_black
      else RGBA (of_nat (div8 (unat (red p)) (unat (alpha p))))
                (of_nat (div8 (unat (green p)) (unat (alpha p))))
                (of_nat (div8 (unat (blue p)) (unat (alpha p))))
                (alpha p))"

text \<open>
  The default compositing operator, source-over, on premultiplied pixels: every
  channel of the result is the source's plus the share \<open>1 - alpha\<close> of the
  destination's.
\<close>

definition over_channel :: "channel \<Rightarrow> channel \<Rightarrow> channel \<Rightarrow> channel" where
  "over_channel s sa d = of_nat (min 255 (unat s + mul8 (unat d) (255 - unat sa)))"

definition source_over :: "rgba \<Rightarrow> rgba \<Rightarrow> rgba" where
  "source_over s d =
     RGBA (over_channel (red s) (alpha s) (red d))
          (over_channel (green s) (alpha s) (green d))
          (over_channel (blue s) (alpha s) (blue d))
          (over_channel (alpha s) (alpha s) (alpha d))"

section \<open>What the browser supplies\<close>

text \<open>
  Two computations of the browser are not fixed by the model and are parameters of
  it: the Gaussian kernel of \<^verbatim>\<open>blur\<close> for a positive radius, and the resampling of a
  picture whose pixels do not fall on whole pixels of the canvas (the browser then
  blends neighbouring pixels).
\<close>

record matrix =
  ma :: real
  mb :: real
  mc :: real
  md :: real
  me :: real
  mf :: real

record browser =
  gauss :: "int \<Rightarrow> layer \<Rightarrow> layer"
  resample :: "matrix \<Rightarrow> bitmap \<Rightarrow> real \<Rightarrow> real \<Rightarrow> layer"

section \<open>CSS filter functions\<close>

text \<open>
  \<^verbatim>\<open>ctx.filter\<close> is assigned the text
  \<^verbatim>\<open>brightness(b%) contrast(c%) saturate(s%) blur(r px)\<close>. The model keeps the list of
  filter functions in the order of the text, each with the number the template
  literal inserts. A filter function with a negative argument does not parse, and then
  the whole assignment is ignored.

  The functions themselves are the browser's, and each one stores its result in 8
  bits before the next one runs. They work on the colour of a pixel, not on its
  premultiplied channels, and leave alpha alone; a fully transparent pixel stays
  transparent black. Brightness and contrast are transfer tables over the 256 channel
  values, \<open>p/100 * i\<close> and \<open>p/100 * i + 255 * (1/2 - p/200)\<close>, limited to 0..255 and cut
  off to a whole number. Saturate is the saturation colour matrix with the weights
  0.213, 0.715 and 0.072, limited to 0..255 and rounded. The percentages are taken
  as exact fractions. A blur of radius 0 passes its input through.
\<close>

datatype filter_fn = FBrightness int | FContrast int | FSaturate int | FBlur int

fun filter_arg :: "filter_fn \<Rightarrow> int" where
  "filter_arg (FBrightness p) = p"
| "filter_arg (FContrast p) = p"
| "filter_arg (FSaturate p) = p"
| "filter_arg (FBlur r) = r"

definition parse_filter :: "filter_fn list \<Rightarrow> filter_fn list option" where
  "parse_filter fs = (if list_all (\<lambda>f. 0 \<le> filter_arg f) fs then Some fs else None)"

definition brightness_table :: "int \<Rightarrow> nat \<Rightarrow> nat" where
  "brightness_table p i = clamp8 ((p * int i) div 100)"

definition contrast_table :: "int \<Rightarrow> nat \<Rightarrow> nat" where
  "contrast_table p i = clamp8 ((2 * p * int i + 255 * (100 - p)) div 200)"

definition nearest :: "int \<Rightarrow> int \<Rightarrow> int" where
  "nearest n d = (2 * n + d) div (2 * d)"

definition saturate_matrix :: "int \<Rightarrow> nat \<times> nat \<times> nat \<Rightarrow> nat \<times> nat \<times> nat" where
  "saturate_matrix p c =
     (case c of (r, g, b) \<Rightarrow>
       (clamp8 (nearest ((21300 + 787 * p) * int r + (71500 - 715 * p) * int g + (7200 - 72 * p) * int b) 100000),
        clamp8 (nearest ((21300 - 213 * p) * int r + (71500 + 285 * p) * int g + (7200 - 72 * p) * int b) 100000),
        clamp8 (nearest ((21300 - 213 * p) * int r + (71500 - 715 * p) * int g + (7200 + 928 * p) * int b) 100000)))"

definition on_colour :: "(nat \<times> nat \<times> nat \<Rightarrow> nat \<times> nat \<times> nat) \<Rightarrow> rgba \<Rightarrow> rgba" where
  "on_colour f p =
     (let u = unpremultiply p in
      case f (unat (red u), unat (green u), unat (blue u)) of
        (r, g, b) \<Rightarrow> premultiply (RGBA (of_nat r) (of_nat g) (of_nat b) (alpha p)))"

definition brightness_px :: "int \<Rightarrow> rgba \<Rightarrow> rgba" where
  "brightness_px p =
     on_colour (\<lambda>(r, g, b). (brightness_table p r, brightness_table p g, brightness_table p b))"

definition contrast_px :: "int \<Rightarrow> rgba \<Rightarrow> rgba" where
  "contrast_px p =
     on_colour (\<lambda>(r, g, b). (contrast_table p r, contrast_table p g, contrast_table p b))"

definition saturate_px :: "int \<Rightarrow> rgba \<Rightarrow> rgba" where
  "saturate_px p = on_colour (saturate_matrix p)"

definition fe_brightness :: "int \<Rightarrow> layer \<Rightarrow> layer" where
  "fe_brightness p A = (\<lambda>x y. brightness_px p (A x y))"

definition fe_contrast :: "int \<Rightarrow> layer \<Rightarrow> layer" where
  "fe_contrast p A = (\<lambda>x y. contrast_px p (A x y))"

definition fe_saturate :: "int \<Rightarrow> layer \<Rightarrow> layer" where
  "fe_saturate p A = (\<lambda>x y. saturate_px p (A x y))"

definition fe_blur :: "browser \<Rightarrow> int \<Rightarrow> layer \<Rightarrow> layer" where
  "fe_blur B r A = (if r = 0 then A else gauss B r A)"

fun apply_filter_fn :: "browser \<Rightarrow> filter_fn \<Rightarrow> layer \<Rightarrow> layer" where
  "apply_filter_fn B (FBrightness p) A = fe_brightness p A"
| "apply_filter_fn B (FContrast p) A = fe_contrast p A"
| "apply_filter_fn B (FSaturate p) A = fe_saturate p A"
| "apply_filter_fn B (FBlur r) A = fe_blur B r A"

definition apply_filter_list :: "browser \<Rightarrow> filter_fn list \<Rightarrow> layer \<Rightarrow> layer" where
  "apply_filter_list B fs A = fold (apply_filter_fn B) fs A"

section \<open>The canvas and its 2D context\<close>

text \<open>
  The current transformation matrix maps a point \<open>(x, y)\<close> of the drawing to the canvas
  point \<open>(ma * x + mc * y + me, mb * x + md * y + mf)\<close>. \<^verbatim>\<open>translate\<close>, \<^verbatim>\<open>rotate\<close> and
  \<^verbatim>\<open>scale\<close> multiply the matrix on the right.
\<close>

definition identity_matrix :: matrix where
  "identity_matrix = \<lparr>ma = 1, mb = 0, mc = 0, md = 1, me = 0, mf = 0\<rparr>"

definition det :: "matrix \<Rightarrow> real" where
  "det m = ma m * md m - mb m * mc m"

record context_state =
  filter_c :: "filter_fn list"
  transform :: matrix

definition default_state :: context_state where
  "default_state = \<lparr>filter_c = [], transform = identity_matrix\<rparr>"

record canvas =
  obitmap :: bitmap
  cstate :: context_state
  cstack :: "context_state list"

text \<open>A canvas element as the page creates it: 300 by 150, transparent.\<close>

definition fresh_canvas :: canvas where
  "fresh_canvas = \<lparr>obitmap = blank 300 150, cstate = default_state, cstack = []\<rparr>"

text \<open>
  Assigning \<^verbatim>\<open>canvas.width\<close> or \<^verbatim>\<open>canvas.height\<close> sets the bitmap dimensions:
  the context goes back to its default state and the bitmap is cleared.
\<close>

definition set_width :: "canvas \<Rightarrow> nat \<Rightarrow> canvas" where
  "set_width c w = \<lparr>obitmap = blank w (bheight (obitmap c)), cstate = default_state, cstack = []\<rparr>"

definition set_height :: "canvas \<Rightarrow> nat \<Rightarrow> canvas" where
  "set_height c h = \<lparr>obitmap = blank (bwidth (obitmap c)) h, cstate = default_state, cstack = []\<rparr>"

definition set_filter :: "canvas \<Rightarrow> filter_fn list \<Rightarrow> canvas" where
  "set_filter c fs =
     (case parse_filter fs of
        None \<Rightarrow> c
      | Some fs' \<Rightarrow> c\<lparr>cstate := (cstate c)\<lparr>filter_c := fs'\<rparr>\<rparr>)"

definition save :: "canvas \<Rightarrow> canvas" where
  "save c = c\<lparr>cstack := cstate c # cstack c\<rparr>"

definition restore :: "canvas \<Rightarrow> canvas" where
  "restore c = (case cstack c of [] \<Rightarrow> c | s # ss \<Rightarrow> c\<lparr>cstate := s, cstack := ss\<rparr>)"

definition with_transform :: "canvas \<Rightarrow> matrix \<Rightarrow> canvas" where
  "with_transform c m = c\<lparr>cstate := (cstate c)\<lparr>transform := m\<rparr>\<rparr>"

definition translate :: "canvas \<Rightarrow> real \<Rightarrow> real \<Rightarrow> canvas" where
  "translate c tx ty =
     (let m = transform (cstate c) in
      with_transform c (m\<lparr>me := ma m * tx + mc m * ty + me m, mf := mb m * tx + md m * ty + mf m\<rparr>))"

definition rotate_c :: "canvas \<Rightarrow> real \<Rightarrow> canvas" where
  "rotate_c c t =
     (let m = transform (cstate c) in
      with_transform c
        (m\<lparr>ma := ma m * cos t + mc m * sin t, mb := mb m * cos t + md m * sin t,
           mc := mc m * cos t - ma m * sin t, md := md m * cos t - mb m * sin t\<rparr>))"

definition scale_c :: "canvas \<Rightarrow> real \<Rightarrow> real \<Rightarrow> canvas" where
  "scale_c c sx sy =
     (let m = transform (cstate c) in
      with_transform c (m\<lparr>ma := ma m * sx, mb := mb m * sx, mc := mc m * sy, md := md m * sy\<rparr>))"

text \<open>
  \<^verbatim>\<open>drawImage(img, dx, dy)\<close> follows the drawing model of the 2D context: the picture
  is rendered through the current transformation onto an unbounded transparent layer,
  the current filter is applied to that layer, and the result is composited onto the
  output bitmap within its bounds. A matrix that is not invertible draws nothing.

  A canvas pixel \<open>(x, y)\<close> is sampled at its centre \<open>(x + 1/2, y + 1/2)\<close>, mapped back
  through the matrix into the picture. Angles, sines and cosines are exact reals, so
  a quarter turn is exact. When the matrix only turns by quarter turns and mirrors,
  and the centre of the canvas pixel lands on the centre of a pixel of the picture,
  the layer takes that pixel, premultiplied. In every other case the browser blends
  neighbouring pixels, and the value is the browser's \<open>resample\<close>.
\<close>

definition source_point :: "matrix \<Rightarrow> real \<Rightarrow> real \<Rightarrow> real \<times> real" where
  "source_point m X Y =
     ((md m * (X - me m) - mc m * (Y - mf m)) / det m,
      (ma m * (Y - mf m) - mb m * (X - me m)) / det m)"

definition unit_entry :: "real \<Rightarrow> bool" where
  "unit_entry v \<longleftrightarrow> v = 0 \<or> v = 1 \<or> v = - 1"

definition quarter_matrix :: "matrix \<Rightarrow> bool" where
  "quarter_matrix m \<longleftrightarrow> unit_entry (ma m) \<and> unit_entry (mb m) \<and> unit_entry (mc m) \<and> unit_entry (md m)"

definition on_centre :: "real \<Rightarrow> bool" where
  "on_centre u \<longleftrightarrow> u - 1 / 2 = real_of_int \<lfloor>u\<rfloor>"

definition draw_layer :: "browser \<Rightarrow> matrix \<Rightarrow> bitmap \<Rightarrow> real \<Rightarrow> real \<Rightarrow> layer" where
  "draw_layer B m im dx dy = (\<lambda>x y.
     (let (sx, sy) = source_point m (real_of_int x + 1 / 2) (real_of_int y + 1 / 2);
          u = sx - dx; v = sy - dy in
      if quarter_matrix m \<and> on_centre u \<and> on_centre v
      then (if 0 \<le> u \<and> u < real (bwidth im) \<and> 0 \<le> v \<and> v < real (bheight im)
            then premultiply (px im (nat \<lfloor>u\<rfloor>) (nat \<lfloor>v\<rfloor>))
            else transparent_black)
      else resample B m im dx dy x y))"

definition drawImage :: "browser \<Rightarrow> canvas \<Rightarrow> bitmap \<Rightarrow> real \<Rightarrow> real \<Rightarrow> canvas" where
  "drawImage B c im dx dy =
     (let m = transform (cstate c) in
      if det m = 0 then c
      else (let L = apply_filter_list B (filter_c (cstate c)) (draw_layer B m im dx dy) in
            c\<lparr>obitmap := tabulate (bwidth (obitmap c)) (bheight (obitmap c))
                 (\<lambda>x y. source_over (L (int x) (int y)) (px (obitmap c) x y))\<rparr>))"

text \<open>
  \<^verbatim>\<open>canvas.toDataURL()\<close>, as \<^verbatim>\<open>handleDownload\<close> calls it: the picture on the
  canvas, read back from the premultiplied store (the bitmap stands for the PNG that
  encodes it).
\<close>

definition toDataURL :: "canvas \<Rightarrow> bitmap" where
  "toDataURL c =
     tabulate (bwidth (obitmap c)) (bheight (obitmap c)) (\<lambda>x y. unpremultiply (px (obitmap c) x y))"

text \<open>
  \<^verbatim>\<open>canvas.getContext('2d')\<close>: the context shares the canvas's state, so the model
  hands back the canvas itself; any other context id yields null here.
\<close>

definition getContext :: "canvas \<Rightarrow> string \<Rightarrow> canvas option" where
  "getContext c ident = (if ident = ''2d'' then Some c else None)"

section \<open>The component\<close>

text \<open>
  The four adjustments are JavaScript numbers. The sliders are range inputs with
  integer bounds and the default step, so \<^verbatim>\<open>Number(e.target.value)\<close> is a whole
  number, and the model takes integers. The rotation is a whole number of degrees.
\<close>

record adjustments =
  brightness :: int
  contrast :: int
  saturation :: int
  blur :: int

datatype adj_key = K_brightness | K_contrast | K_saturation | K_blur

record flip_state =
  horizontal :: bool
  vertical :: bool

text \<open>
  The state of \<^verbatim>\<open>App\<close>. The data URL kept in \<^verbatim>\<open>image\<close> stands for the bitmap it
  decodes to; \<^verbatim>\<open>canvasRef.current\<close> is null while no canvas element is mounted.
\<close>

record app =
  image_s :: "bitmap option"
  adjustments_s :: adjustments
  canvasRef :: "canvas option"
  rotation :: int
  flip_s :: flip_state

definition initial_app :: app where
  "initial_app =
     \<lparr>image_s = None,
      adjustments_s = \<lparr>brightness = 100, contrast = 100, saturation = 100, blur = 0\<rparr>,
      canvasRef = None,
      rotation = 0,
      flip_s = \<lparr>horizontal = False, vertical = False\<rparr>\<rparr>"

text \<open>The body of \<^verbatim>\<open>img.onload\<close> inside \<^verbatim>\<open>applyFilters\<close>, statement by statement.\<close>

definition onload :: "browser \<Rightarrow> canvas \<Rightarrow> bitmap \<Rightarrow> adjustments \<Rightarrow> int \<Rightarrow> flip_state \<Rightarrow> canvas" where
  "onload B canvas0 img adj rot fl =
     (let c1 = set_width canvas0 (bwidth img);
          c2 = set_height c1 (bheight img);
          c3 = set_filter c2 [FBrightness (brightness adj), FContrast (contrast adj),
                              FSaturate (saturation adj), FBlur (blur adj)];
          c4 = save c3;
          c5 = translate c4 (real (bwidth (obitmap c4)) / 2) (real (bheight (obitmap c4)) / 2);
          c6 = rotate_c c5 (real_of_int rot * pi / 180);
          c7 = scale_c c6 (if horizontal fl then - 1 else 1) (if vertical fl then - 1 else 1);
          c8 = drawImage B c7 img (- (real (bwidth img) / 2)) (- (real (bheight img) / 2))
      in restore c8)"

text \<open>
  \<^verbatim>\<open>applyFilters\<close>: nothing happens without a canvas, a context or an image
  (\<open>None\<close>); otherwise the picture is loaded and \<^verbatim>\<open>onload\<close> draws it. The load is
  taken to succeed and to complete before the next event.
\<close>

definition applyFilters :: "browser \<Rightarrow> canvas option \<Rightarrow> bitmap option \<Rightarrow> adjustments \<Rightarrow> int \<Rightarrow> flip_state \<Rightarrow> canvas option" where
  "applyFilters B cref image0 adj rot fl =
     (case cref of
        None \<Rightarrow> None
      | Some canvas0 \<Rightarrow>
          (case getContext canvas0 ''2d'' of
             None \<Rightarrow> None
           | Some ctx \<Rightarrow>
               (case image0 of
                  None \<Rightarrow> None
                | Some img \<Rightarrow> Some (onload B ctx img adj rot fl))))"

text \<open>\<^verbatim>\<open>handleAdjustment\<close>: \<^verbatim>\<open>{ ...prev, [name]: value }\<close>.\<close>

fun handleAdjustment :: "adj_key \<Rightarrow> int \<Rightarrow> adjustments \<Rightarrow> adjustments" where
  "handleAdjustment K_brightness v prev = prev\<lparr>brightness := v\<rparr>"
| "handleAdjustment K_contrast v prev = prev\<lparr>contrast := v\<rparr>"
| "handleAdjustment K_saturation v prev = prev\<lparr>saturation := v\<rparr>"
| "handleAdjustment K_blur v prev = prev\<lparr>blur := v\<rparr>"

fun adj_get :: "adj_key \<Rightarrow> adjustments \<Rightarrow> int" where
  "adj_get K_brightness a = brightness a"
| "adj_get K_contrast a = contrast a"
| "adj_get K_saturation a = saturation a"
| "adj_get K_blur a = blur a"

text \<open>
  The user's actions. Each one updates the state through its handler; React then
  renders again (the canvas element is mounted as soon as there is an image) and the
  effect calls \<^verbatim>\<open>applyFilters\<close> with the new state. \<^verbatim>\<open>(r + 90) % 360\<close> is
  JavaScript's remainder, which truncates: \<open>smod\<close>.
\<close>

datatype event =
    ImageUpload "bitmap option"
  | Adjust adj_key int
  | RotateClick
  | FlipHClick
  | FlipVClick

fun update :: "event \<Rightarrow> app \<Rightarrow> app" where
  "update (ImageUpload file) s = (case file of None \<Rightarrow> s | Some b \<Rightarrow> s\<lparr>image_s := Some b\<rparr>)"
| "update (Adjust name v) s = s\<lparr>adjustments_s := handleAdjustment name v (adjustments_s s)\<rparr>"
| "update RotateClick s = s\<lparr>rotation := (rotation s + 90) smod 360\<rparr>"
| "update FlipHClick s = s\<lparr>flip_s := (flip_s s)\<lparr>horizontal := \<not> horizontal (flip_s s)\<rparr>\<rparr>"
| "update FlipVClick s = s\<lparr>flip_s := (flip_s s)\<lparr>vertical := \<not> vertical (flip_s s)\<rparr>\<rparr>"

definition mount :: "app \<Rightarrow> canvas option" where
  "mount s =
     (case image_s s of
        None \<Rightarrow> None
      | Some _ \<Rightarrow> (case canvasRef s of None \<Rightarrow> Some fresh_canvas | Some c \<Rightarrow> Some c))"

definition effect :: "browser \<Rightarrow> app \<Rightarrow> app" where
  "effect B s =
     (let s' = s\<lparr>canvasRef := mount s\<rparr> in
      case applyFilters B (canvasRef s') (image_s s') (adjustments_s s') (rotation s') (flip_s s') of
        None \<Rightarrow> s'
      | Some c \<Rightarrow> s'\<lparr>canvasRef := Some c\<rparr>)"

definition step :: "browser \<Rightarrow> event \<Rightarrow> app \<Rightarrow> app" where
  "step B e s = effect B (update e s)"

definition run :: "browser \<Rightarrow> event list \<Rightarrow> app \<Rightarrow> app" where
  "run B es s = fold (step B) es s"

section \<open>What one run of the effect computes\<close>

text \<open>
  The matrix that \<^verbatim>\<open>translate\<close>, \<^verbatim>\<open>rotate\<close> and \<^verbatim>\<open>scale\<close> leave in the context when
  \<^verbatim>\<open>drawImage\<close> is called, and the filter then in force: the assigned list when it
  parses, the default (no filter) otherwise. Both are derived from \<open>onload\<close> below.
\<close>

definition code_matrix :: "nat \<Rightarrow> nat \<Rightarrow> int \<Rightarrow> flip_state \<Rightarrow> matrix" where
  "code_matrix w h rot fl =
     (let t = real_of_int rot * pi / 180;
          sx = (if horizontal fl then - 1 else 1);
          sy = (if vertical fl then - 1 else 1) in
      \<lparr>ma = cos t * sx, mb = sin t * sx, mc = - sin t * sy, md = cos t * sy,
       me = real w / 2, mf = real h / 2\<rparr>)"

definition code_filter :: "adjustments \<Rightarrow> filter_fn list" where
  "code_filter adj =
     (case parse_filter [FBrightness (brightness adj), FContrast (contrast adj),
                         FSaturate (saturation adj), FBlur (blur adj)] of
        None \<Rightarrow> [] | Some fs \<Rightarrow> fs)"

definition code_layer :: "browser \<Rightarrow> bitmap \<Rightarrow> int \<Rightarrow> flip_state \<Rightarrow> layer" where
  "code_layer B img rot fl =
     draw_layer B (code_matrix (bwidth img) (bheight img) rot fl) img
       (- (real (bwidth img) / 2)) (- (real (bheight img) / 2))"

definition canvas_dims :: "canvas \<Rightarrow> nat \<times> nat" where
  "canvas_dims c = (bwidth (obitmap c), bheight (obitmap c))"

text \<open>
  The picture a run leaves on a fresh canvas, read back as the download would, for
  a given source and parameters.
\<close>

definition drawn :: "browser \<Rightarrow> bitmap \<Rightarrow> adjustments \<Rightarrow> int \<Rightarrow> flip_state \<Rightarrow> bitmap option" where
  "drawn B img adj rot fl =
     map_option toDataURL (applyFilters B (Some fresh_canvas) (Some img) adj rot fl)"

definition default_adjustments :: adjustments where
  "default_adjustments = adjustments_s initial_app"

definition no_flip :: flip_state where
  "no_flip = flip_s initial_app"

text \<open>
  What the three colour functions make of a stored pixel, one after the other, and
  what a pixel of the source looks like in the download after them.
\<close>

definition pixel_chain :: "int \<Rightarrow> int \<Rightarrow> int \<Rightarrow> rgba \<Rightarrow> rgba" where
  "pixel_chain b c s p = saturate_px s (contrast_px c (brightness_px b p))"

definition shown :: "int \<Rightarrow> int \<Rightarrow> int \<Rightarrow> rgba \<Rightarrow> rgba" where
  "shown b c s p = unpremultiply (pixel_chain b c s (premultiply p))"

text \<open>
  A browser for the examples. Its blur is a stand-in for the Gaussian, the mean over
  the \<open>2 * r + 1\<close> pixels of a row around the pixel; its resampling is never consulted
  by an example whose pixels fall on whole pixels.
\<close>

definition mean_channel :: "(rgba \<Rightarrow> channel) \<Rightarrow> layer \<Rightarrow> int \<Rightarrow> int \<Rightarrow> int \<Rightarrow> channel" where
  "mean_channel ch A r x y =
     of_nat (sum_list (map (\<lambda>i. unat (ch (A i y))) [x - r..x + r]) div nat (2 * r + 1))"

definition box_kernel :: "int \<Rightarrow> layer \<Rightarrow> layer" where
  "box_kernel r A = (\<lambda>x y.
     RGBA (mean_channel red A r x y) (mean_channel green A r x y)
          (mean_channel blue A r x y) (mean_channel alpha A r x y))"

definition sample_browser :: browser where
  "sample_browser = \<lparr>gauss = box_kernel, resample = (\<lambda>m im dx dy x y. transparent_black)\<rparr>"

section \<open>The transformation as a map of points\<close>

text \<open>
  The canvas up to the call of \<^verbatim>\<open>drawImage\<close>, that is \<^verbatim>\<open>onload\<close> without its last two
  statements; the point a matrix sends a point of the drawing to; and the three
  motions the matrix is built from.
\<close>

definition before_draw :: "canvas \<Rightarrow> bitmap \<Rightarrow> adjustments \<Rightarrow> int \<Rightarrow> flip_state \<Rightarrow> canvas" where
  "before_draw canvas0 img adj rot fl =
     (let c1 = set_width canvas0 (bwidth img);
          c2 = set_height c1 (bheight img);
          c3 = set_filter c2 [FBrightness (brightness adj), FContrast (contrast adj),
                              FSaturate (saturation adj), FBlur (blur adj)];
          c4 = save c3;
          c5 = translate c4 (real (bwidth (obitmap c4)) / 2) (real (bheight (obitmap c4)) / 2);
          c6 = rotate_c c5 (real_of_int rot * pi / 180)
      in scale_c c6 (if horizontal fl then - 1 else 1) (if vertical fl then - 1 else 1))"

definition apply_matrix :: "matrix \<Rightarrow> real \<times> real \<Rightarrow> real \<times> real" where
  "apply_matrix m p = (ma m * fst p + mc m * snd p + me m, mb m * fst p + md m * snd p + mf m)"

definition flip_point :: "flip_state \<Rightarrow> real \<times> real \<Rightarrow> real \<times> real" where
  "flip_point fl p = ((if horizontal fl then - fst p else fst p), (if vertical fl then - snd p else snd p))"

definition rotate_point :: "real \<Rightarrow> real \<times> real \<Rightarrow> real \<times> real" where
  "rotate_point t p = (fst p * cos t - snd p * sin t, fst p * sin t + snd p * cos t)"

definition shift_point :: "real \<Rightarrow> real \<Rightarrow> real \<times> real \<Rightarrow> real \<times> real" where
  "shift_point tx ty p = (fst p + tx, snd p + ty)"

section \<open>The transform stage in the words of the specification\<close>

text \<open>
  The specification describes flips and quarter turns as pixel permutations:
  horizontal flip \<open>output(x,y) = input(width-1-x, y)\<close>, vertical flip
  \<open>output(x,y) = input(x, height-1-y)\<close>, one quarter turn clockwise
  \<open>output(x,y) = input(y, height-1-x)\<close>, two \<open>output(x,y) = input(width-1-x, height-1-y)\<close>,
  three \<open>output(x,y) = input(width-1-y, x)\<close>, with width and height swapped for one and
  three quarter turns. These definitions follow those words; the theorems compare them
  with what the canvas draws.
\<close>

definition spec_flip_h :: "bitmap \<Rightarrow> bitmap" where
  "spec_flip_h b = tabulate (bwidth b) (bheight b) (\<lambda>x y. px b (bwidth b - 1 - x) y)"

definition spec_flip_v :: "bitmap \<Rightarrow> bitmap" where
  "spec_flip_v b = tabulate (bwidth b) (bheight b) (\<lambda>x y. px b x (bheight b - 1 - y))"

definition spec_rotate :: "nat \<Rightarrow> bitmap \<Rightarrow> bitmap" where
  "spec_rotate k b =
     (if k = 0 then b
      else if k = 1 then tabulate (bheight b) (bwidth b) (\<lambda>x y. px b y (bheight b - 1 - x))
      else if k = 2 then tabulate (bwidth b) (bheight b) (\<lambda>x y. px b (bwidth b - 1 - x) (bheight b - 1 - y))
      else tabulate (bheight b) (bwidth b) (\<lambda>x y. px b (bwidth b - 1 - y) x))"

definition spec_flips :: "bool \<Rightarrow> bool \<Rightarrow> bitmap \<Rightarrow> bitmap" where
  "spec_flips fh fv b =
     (let b1 = (if fh then spec_flip_h b else b) in
      if fv then spec_flip_v b1 else b1)"

definition rotate_then_flip :: "nat \<Rightarrow> bool \<Rightarrow> bool \<Rightarrow> bitmap \<Rightarrow> bitmap" where
  "rotate_then_flip k fh fv b = spec_flips fh fv (spec_rotate k b)"

definition flip_then_rotate :: "nat \<Rightarrow> bool \<Rightarrow> bool \<Rightarrow> bitmap \<Rightarrow> bitmap" where
  "flip_then_rotate k fh fv b = spec_rotate k (spec_flips fh fv b)"

definition spec_output_dims :: "bitmap \<Rightarrow> int \<Rightarrow> nat \<times> nat" where
  "spec_output_dims b rot =
     (if rot = 90 \<or> rot = 270 then (bheight b, bwidth b) else (bwidth b, bheight b))"

text \<open>
  A bitmap shown on a \<open>w\<close> by \<open>h\<close> canvas with the two centres on each other: what
  falls outside the canvas is cut off, what the bitmap does not cover stays transparent.
\<close>

definition place_centred :: "nat \<Rightarrow> nat \<Rightarrow> bitmap \<Rightarrow> bitmap" where
  "place_centred w h b =
     tabulate w h (\<lambda>x y.
       (let X = int x - (int w - int (bwidth b)) div 2;
            Y = int y - (int h - int (bheight b)) div 2 in
        if 0 \<le> X \<and> X < int (bwidth b) \<and> 0 \<le> Y \<and> Y < int (bheight b)
        then px b (nat X) (nat Y) else transparent_black))"

text \<open>The nominal ranges of the specification: percentages in [0,200], blur in [0,20].\<close>

definition spec_in_range :: "adjustments \<Rightarrow> bool" where
  "spec_in_range adj \<longleftrightarrow>
     0 \<le> brightness adj \<and> brightness adj \<le> 200 \<and>
     0 \<le> contrast adj \<and> contrast adj \<le> 200 \<and>
     0 \<le> saturation adj \<and> saturation adj \<le> 200 \<and>
     0 \<le> blur adj \<and> blur adj \<le> 20"

section \<open>Where a canvas pixel comes from\<close>

text \<open>
  Auxiliary notions for the quarter turns. Along one axis, a pixel at position \<open>z\<close> of
  a canvas of extent \<open>d\<close> reads the picture, of extent \<open>w\<close>, at \<open>axis forward w d z\<close>:
  counted in the same direction, or mirrored. \<open>source_index\<close> is the position in the
  source picture that the canvas pixel \<open>(x, y)\<close> shows after \<open>k\<close> quarter turns and the
  flips, and \<open>pick\<close> the pixel there, transparent outside the picture.
\<close>

definition axis :: "bool \<Rightarrow> nat \<Rightarrow> nat \<Rightarrow> int \<Rightarrow> int" where
  "axis forward w d z =
     (if forward then (int w - int d) div 2 + z else (int w + int d) div 2 - 1 - z)"

definition coord :: "real \<Rightarrow> nat \<Rightarrow> nat \<Rightarrow> int \<Rightarrow> real" where
  "coord s w d z = s * (real_of_int z + 1 / 2 - real d / 2) + real w / 2"

definition source_index :: "nat \<Rightarrow> nat \<Rightarrow> nat \<Rightarrow> bool \<Rightarrow> bool \<Rightarrow> int \<Rightarrow> int \<Rightarrow> int \<times> int" where
  "source_index w h k fh fv x y =
     (if k = 0 then (axis (\<not> fh) w w x, axis (\<not> fv) h h y)
      else if k = 1 then (axis (\<not> fh) w h y, axis fv h w x)
      else if k = 2 then (axis fh w w x, axis fv h h y)
      else (axis fh w h y, axis (\<not> fv) h w x))"

definition pick :: "bitmap \<Rightarrow> int \<times> int \<Rightarrow> rgba" where
  "pick img ij =
     (if 0 \<le> fst ij \<and> fst ij < int (bwidth img) \<and> 0 \<le> snd ij \<and> snd ij < int (bheight img)
      then px img (nat (fst ij)) (nat (snd ij)) else transparent_black)"

section \<open>Sample pictures\<close>

definition sample_2x2 :: bitmap where
  "sample_2x2 =
     \<lparr>bwidth = 2, bheight = 2,
      bdata = [[RGBA 10 0 0 255, RGBA 20 0 0 255], [RGBA 30 0 0 255, RGBA 40 0 0 255]]\<rparr>"

definition sample_2x1 :: bitmap where
  "sample_2x1 = \<lparr>bwidth = 2, bheight = 1, bdata = [[RGBA 10 0 0 255, RGBA 20 0 0 255]]\<rparr>"

definition one_pixel :: "rgba \<Rightarrow> bitmap" where
  "one_pixel p = \<lparr>bwidth = 1, bheight = 1, bdata = [[p]]\<rparr>"

definition flip_h_only :: flip_state where
  "flip_h_only = \<lparr>horizontal = True, vertical = False\<rparr>"

definition flip_v_only :: flip_state where
  "flip_v_only = \<lparr>horizontal = False, vertical = True\<rparr>"

text \<open>Slider settings used in the examples.\<close>

definition bright_200 :: adjustments where
  "bright_200 = \<lparr>brightness = 200, contrast = 100, saturation = 100, blur = 0\<rparr>"

definition bright_250 :: adjustments where
  "bright_250 = \<lparr>brightness = 250, contrast = 100, saturation = 100, blur = 0\<rparr>"

definition all_three :: adjustments where
  "all_three = \<lparr>brightness = 150, contrast = 50, saturation = 200, blur = 0\<rparr>"

definition all_four :: adjustments where
  "all_four = \<lparr>brightness = 150, contrast = 50, saturation = 200, blur = 2\<rparr>"

text \<open>A picture with one translucent pixel beside an opaque one.\<close>

definition translucent_2x1 :: bitmap where
  "translucent_2x1 = \<lparr>bwidth = 2, bheight = 1, bdata = [[RGBA 200 100 50 3, RGBA 10 0 0 255]]\<rparr>"

section \<open>Bitmaps, pixels and the closed form of a run\<close>

lemma tabulate_cong:
  "(\<And>x y. x < w \<Longrightarrow> y < h \<Longrightarrow> f x y = f' x y) \<Longrightarrow> tabulate w h f = tabulate w h f'"
  by (simp add: tabulate_def)

lemma px_tabulate: "x < w \<Longrightarrow> y < h \<Longrightarrow> px (tabulate w h f) x y = f x y"
  by (simp add: px_def tabulate_def)

lemma dims_tabulate [simp]: "bwidth (tabulate w h f) = w" "bheight (tabulate w h f) = h"
  by (simp_all add: tabulate_def)

lemma wf_tabulate: "wf_bitmap (tabulate w h f)"
  by (simp add: wf_bitmap_def tabulate_def list_all_iff)

lemma tabulate_px: "wf_bitmap b \<Longrightarrow> tabulate (bwidth b) (bheight b) (px b) = b"
proof -
  assume wf: "wf_bitmap b"
  have rows: "map (\<lambda>y. map (\<lambda>x. bdata b ! y ! x) [0..<bwidth b]) [0..<bheight b] = bdata b"
  proof (rule nth_equalityI)
    show "length (map (\<lambda>y. map (\<lambda>x. bdata b ! y ! x) [0..<bwidth b]) [0..<bheight b]) = length (bdata b)"
      using wf by (simp add: wf_bitmap_def)
  next
    fix i assume "i < length (map (\<lambda>y. map (\<lambda>x. bdata b ! y ! x) [0..<bwidth b]) [0..<bheight b])"
    then have i: "i < bheight b" by simp
    with wf have len: "length (bdata b ! i) = bwidth b"
      by (simp add: wf_bitmap_def list_all_length)
    have "map (\<lambda>x. bdata b ! i ! x) [0..<bwidth b] = bdata b ! i"
      using len map_nth [of "bdata b ! i"] by simp
    with i show "map (\<lambda>y. map (\<lambda>x. bdata b ! y ! x) [0..<bwidth b]) [0..<bheight b] ! i = bdata b ! i"
      by simp
  qed
  show ?thesis
    by (simp add: tabulate_def px_def rows)
qed

lemma px_blank: "x < w \<Longrightarrow> y < h \<Longrightarrow> px (blank w h) x y = transparent_black"
  by (simp add: blank_def px_tabulate)

lemma unat_channel_le: "unat (w :: channel) \<le> 255"
  using unsigned_less [of w, where ?'a = nat] by simp

lemma mul8_zero [simp]: "mul8 0 a = 0" "mul8 c 0 = 0"
  by (simp_all add: mul8_def)

lemma mul8_full: "mul8 c 255 = c"
  by (simp add: mul8_def)

lemma div8_full: "c \<le> 255 \<Longrightarrow> div8 c 255 = c"
  by (simp add: div8_def)

lemma over_channel_clear: "over_channel s sa 0 = s"
  using unat_channel_le [of s] by (simp add: over_channel_def)

lemma source_over_clear: "source_over s transparent_black = s"
  by (cases s) (simp add: source_over_def transparent_black_def over_channel_clear)

lemma premultiply_opaque: "alpha p = 255 \<Longrightarrow> premultiply p = p"
  by (cases p) (simp add: premultiply_def mul8_full)

lemma unpremultiply_opaque: "alpha p = 255 \<Longrightarrow> unpremultiply p = p"
  using unat_channel_le [of "red p"] unat_channel_le [of "green p"] unat_channel_le [of "blue p"]
  by (cases p) (simp add: unpremultiply_def div8_full)

lemma premultiply_clear: "alpha p = 0 \<Longrightarrow> premultiply p = transparent_black"
  by (cases p) (simp add: premultiply_def transparent_black_def)

lemma unpremultiply_clear [simp]: "unpremultiply transparent_black = transparent_black"
  by (simp add: unpremultiply_def transparent_black_def)

lemma on_colour_clear [simp]: "on_colour f transparent_black = transparent_black"
  by (simp add: on_colour_def Let_def premultiply_clear transparent_black_def split: prod.split)

lemma on_colour_opaque:
  "alpha p = 255 \<Longrightarrow>
   on_colour f p =
     (case f (unat (red p), unat (green p), unat (blue p)) of
        (r, g, b) \<Rightarrow> RGBA (of_nat r) (of_nat g) (of_nat b) 255)"
  by (simp add: on_colour_def Let_def unpremultiply_opaque premultiply_opaque split: prod.split)

lemma clamp8_id: "i \<le> 255 \<Longrightarrow> clamp8 (int i) = i"
  by (simp add: clamp8_def)

lemma brightness_table_100: "i \<le> 255 \<Longrightarrow> brightness_table 100 i = i"
  by (simp add: brightness_table_def clamp8_id)

lemma contrast_table_100: "i \<le> 255 \<Longrightarrow> contrast_table 100 i = i"
  by (simp add: contrast_table_def clamp8_id)

lemma saturate_matrix_100:
  "r \<le> 255 \<Longrightarrow> g \<le> 255 \<Longrightarrow> b \<le> 255 \<Longrightarrow> saturate_matrix 100 (r, g, b) = (r, g, b)"
proof -
  assume "r \<le> 255" "g \<le> 255" "b \<le> 255"
  moreover have "nearest (100000 * int i) 100000 = int i" for i
    by (simp add: nearest_def)
  ultimately show ?thesis
    by (simp add: saturate_matrix_def clamp8_id)
qed

lemma default_px_opaque:
  assumes "alpha p = 255"
  shows "brightness_px 100 p = p" "contrast_px 100 p = p" "saturate_px 100 p = p"
  using assms unat_channel_le [of "red p"] unat_channel_le [of "green p"] unat_channel_le [of "blue p"]
  by (cases p; simp add: brightness_px_def contrast_px_def saturate_px_def on_colour_opaque
        brightness_table_100 contrast_table_100 saturate_matrix_100)+

lemma default_px_clear:
  "brightness_px k transparent_black = transparent_black"
  "contrast_px k transparent_black = transparent_black"
  "saturate_px k transparent_black = transparent_black"
  by (simp_all add: brightness_px_def contrast_px_def saturate_px_def)

lemma det_code_matrix:
  "det (code_matrix w h rot fl) =
     (if horizontal fl then - 1 else 1) * (if vertical fl then - 1 else 1)"
proof -
  have sq: "cos t * cos t + sin t * sin t = 1" for t :: real
    using sin_cos_squared_add2 [of t] by (simp add: power2_eq_square)
  have "cos t * sx * (cos t * sy) - sin t * sx * (- sin t * sy) = sx * sy" for t sx sy :: real
  proof -
    have "cos t * sx * (cos t * sy) - sin t * sx * (- sin t * sy)
            = (cos t * cos t + sin t * sin t) * (sx * sy)"
      by algebra
    then show ?thesis by (simp only: sq mult_1)
  qed
  then show ?thesis
    by (simp add: code_matrix_def det_def Let_def)
qed

lemma det_code_matrix_nonzero: "det (code_matrix w h rot fl) \<noteq> 0"
  by (simp add: det_code_matrix)

lemma onload_closed:
  "onload B c0 img adj rot fl =
     \<lparr>obitmap = tabulate (bwidth img) (bheight img)
        (\<lambda>x y. apply_filter_list B (code_filter adj) (code_layer B img rot fl) (int x) (int y)),
      cstate = \<lparr>filter_c = code_filter adj, transform = identity_matrix\<rparr>,
      cstack = []\<rparr>"
proof -
  let ?W = "bwidth img" and ?H = "bheight img"
  let ?fs = "[FBrightness (brightness adj), FContrast (contrast adj),
              FSaturate (saturation adj), FBlur (blur adj)]"
  define c2 where "c2 = set_height (set_width c0 ?W) ?H"
  have c2: "c2 = \<lparr>obitmap = blank ?W ?H, cstate = default_state, cstack = []\<rparr>"
    by (simp add: c2_def set_height_def set_width_def blank_def)
  define c3 where "c3 = set_filter c2 ?fs"
  have c3: "c3 = \<lparr>obitmap = blank ?W ?H,
                 cstate = \<lparr>filter_c = code_filter adj, transform = identity_matrix\<rparr>, cstack = []\<rparr>"
    by (simp add: c3_def c2 set_filter_def code_filter_def default_state_def split: option.split)
  let ?st = "\<lparr>filter_c = code_filter adj, transform = identity_matrix\<rparr>"
  define c7 where "c7 = scale_c (rotate_c (translate (save c3) (real ?W / 2) (real ?H / 2))
      (real_of_int rot * pi / 180))
      (if horizontal fl then - 1 else 1) (if vertical fl then - 1 else 1)"
  have c7: "c7 = \<lparr>obitmap = blank ?W ?H,
                 cstate = \<lparr>filter_c = code_filter adj, transform = code_matrix ?W ?H rot fl\<rparr>,
                 cstack = [?st]\<rparr>"
    by (simp add: c7_def c3 save_def translate_def rotate_c_def scale_c_def with_transform_def
        identity_matrix_def code_matrix_def Let_def)
  define L where "L = apply_filter_list B (code_filter adj)
      (draw_layer B (code_matrix ?W ?H rot fl) img (- (real ?W / 2)) (- (real ?H / 2)))"
  have c8: "drawImage B c7 img (- (real ?W / 2)) (- (real ?H / 2)) =
      \<lparr>obitmap = tabulate ?W ?H (\<lambda>x y. L (int x) (int y)),
       cstate = \<lparr>filter_c = code_filter adj, transform = code_matrix ?W ?H rot fl\<rparr>,
       cstack = [?st]\<rparr>"
  proof -
    have "tabulate ?W ?H (\<lambda>x y. source_over (L (int x) (int y)) (px (blank ?W ?H) x y))
        = tabulate ?W ?H (\<lambda>x y. L (int x) (int y))"
      by (rule tabulate_cong) (simp add: px_blank source_over_clear)
    then show ?thesis
      by (simp add: drawImage_def c7 det_code_matrix_nonzero Let_def L_def blank_def)
  qed
  have "onload B c0 img adj rot fl = restore (drawImage B c7 img (- (real ?W / 2)) (- (real ?H / 2)))"
    by (simp add: onload_def Let_def c7_def c3_def c2_def set_width_def set_height_def
        set_filter_def save_def blank_def split: option.split)
  then show ?thesis
    by (simp add: c8 restore_def L_def code_layer_def)
qed

subsection \<open>Quarter turns of the drawing\<close>

lemma quarter_trig:
  "cos (real_of_int 0 * pi / 180) = 1" "sin (real_of_int 0 * pi / 180) = 0"
  "cos (real_of_int 90 * pi / 180) = 0" "sin (real_of_int 90 * pi / 180) = 1"
  "cos (real_of_int 180 * pi / 180) = - 1" "sin (real_of_int 180 * pi / 180) = 0"
  "cos (real_of_int 270 * pi / 180) = 0" "sin (real_of_int 270 * pi / 180) = - 1"
proof -
  have e: "real_of_int 270 * pi / 180 = 3 / 2 * pi" by simp
  show "cos (real_of_int 270 * pi / 180) = 0" unfolding e by (rule cos_3over2_pi)
  show "sin (real_of_int 270 * pi / 180) = - 1" unfolding e by (rule sin_3over2_pi)
qed simp_all

lemma coord_axis:
  assumes "even (w + d)"
  shows "coord 1 w d z = real_of_int (axis True w d z) + 1 / 2"
    and "coord (- 1) w d z = real_of_int (axis False w d z) + 1 / 2"
proof -
  from assms have e1: "even (int w - int d)" and e2: "even (int w + int d)"
    by simp_all
  have d1: "real_of_int ((int w - int d) div 2) = (real w - real d) / 2"
    using real_of_int_div [OF e1] by simp
  have d2: "real_of_int ((int w + int d) div 2) = (real w + real d) / 2"
    using real_of_int_div [OF e2] by simp
  show "coord 1 w d z = real_of_int (axis True w d z) + 1 / 2"
    using d1 by (simp add: coord_def axis_def field_simps)
  show "coord (- 1) w d z = real_of_int (axis False w d z) + 1 / 2"
    using d2 by (simp add: coord_def axis_def field_simps)
qed

lemma half_floor: "\<lfloor>real_of_int m + 1 / 2\<rfloor> = m"
  by linarith

lemma half_range: "(0 \<le> real_of_int m + 1 / 2 \<and> real_of_int m + 1 / 2 < real w) \<longleftrightarrow> (0 \<le> m \<and> m < int w)"
  by linarith

lemma source_point_code:
  "source_point (code_matrix w h rot fl) X Y =
     (let c = cos (real_of_int rot * pi / 180); s = sin (real_of_int rot * pi / 180);
          sx = (if horizontal fl then - 1 else 1); sy = (if vertical fl then - 1 else 1) in
      (sx * (c * (X - real w / 2) + s * (Y - real h / 2)),
       sy * (c * (Y - real h / 2) - s * (X - real w / 2))))"
  by (simp add: source_point_def det_code_matrix) (simp add: code_matrix_def Let_def algebra_simps)

lemma quarter_code_matrix:
  assumes "cos (real_of_int rot * pi / 180) = c" and "sin (real_of_int rot * pi / 180) = s"
    and "unit_entry c" and "unit_entry s"
  shows "quarter_matrix (code_matrix w h rot fl)"
  using assms(3,4)
  by (auto simp: quarter_matrix_def code_matrix_def Let_def assms(1,2) unit_entry_def)

lemma code_layer_coords:
  "code_layer B img rot fl x y =
     (let c = cos (real_of_int rot * pi / 180); s = sin (real_of_int rot * pi / 180);
          sx = (if horizontal fl then - 1 else 1); sy = (if vertical fl then - 1 else 1);
          X = real_of_int x + 1 / 2 - real (bwidth img) / 2;
          Y = real_of_int y + 1 / 2 - real (bheight img) / 2;
          u = sx * (c * X + s * Y) + real (bwidth img) / 2;
          v = sy * (c * Y - s * X) + real (bheight img) / 2 in
      if quarter_matrix (code_matrix (bwidth img) (bheight img) rot fl) \<and> on_centre u \<and> on_centre v
      then (if 0 \<le> u \<and> u < real (bwidth img) \<and> 0 \<le> v \<and> v < real (bheight img)
            then premultiply (px img (nat \<lfloor>u\<rfloor>) (nat \<lfloor>v\<rfloor>))
            else transparent_black)
      else resample B (code_matrix (bwidth img) (bheight img) rot fl) img
             (- (real (bwidth img) / 2)) (- (real (bheight img) / 2)) x y)"
  by (simp add: code_layer_def draw_layer_def source_point_code Let_def)

lemma half_on_centre: "on_centre (real_of_int m + 1 / 2)"
  by (simp add: on_centre_def half_floor)

lemma premultiply_pick_outside:
  "\<not> (0 \<le> fst ij \<and> fst ij < int (bwidth img) \<and> 0 \<le> snd ij \<and> snd ij < int (bheight img)) \<Longrightarrow>
   premultiply (pick img ij) = transparent_black"
  by (auto simp: pick_def premultiply_clear transparent_black_def)

lemma unit_entries: "unit_entry 0" "unit_entry 1" "unit_entry (- 1)"
  by (simp_all add: unit_entry_def)

lemma sample_at:
  assumes "u = real_of_int i + 1 / 2" and "v = real_of_int j + 1 / 2" and q: "Q"
  shows "(if Q \<and> on_centre u \<and> on_centre v
          then (if 0 \<le> u \<and> u < real (bwidth img) \<and> 0 \<le> v \<and> v < real (bheight img)
                then premultiply (px img (nat \<lfloor>u\<rfloor>) (nat \<lfloor>v\<rfloor>)) else transparent_black)
          else R)
       = premultiply (pick img (i, j))"
proof -
  have fl: "\<lfloor>u\<rfloor> = i" "\<lfloor>v\<rfloor> = j"
    unfolding assms(1,2) by (rule half_floor)+
  have oc: "on_centre u" "on_centre v"
    unfolding assms(1,2) by (rule half_on_centre)+
  have rg: "(0 \<le> u \<and> u < real (bwidth img)) \<longleftrightarrow> (0 \<le> i \<and> i < int (bwidth img))"
    "(0 \<le> v \<and> v < real (bheight img)) \<longleftrightarrow> (0 \<le> j \<and> j < int (bheight img))"
    unfolding assms(1,2) by (rule half_range)+
  show ?thesis
  proof (cases "0 \<le> i \<and> i < int (bwidth img) \<and> 0 \<le> j \<and> j < int (bheight img)")
    case True
    with rg q oc show ?thesis by (simp add: pick_def fl)
  next
    case False
    then have "premultiply (pick img (i, j)) = transparent_black"
      by (intro premultiply_pick_outside) simp
    with False rg q oc show ?thesis by auto
  qed
qed

lemma code_layer_cs:
  assumes "cos (real_of_int rot * pi / 180) = c" and "sin (real_of_int rot * pi / 180) = s"
    and "unit_entry c" and "unit_entry s"
    and "(if horizontal fl then - 1 else 1) *
           (c * (real_of_int x + 1 / 2 - real (bwidth img) / 2) +
            s * (real_of_int y + 1 / 2 - real (bheight img) / 2)) + real (bwidth img) / 2
         = real_of_int (fst ij) + 1 / 2"
    and "(if vertical fl then - 1 else 1) *
           (c * (real_of_int y + 1 / 2 - real (bheight img) / 2) -
            s * (real_of_int x + 1 / 2 - real (bwidth img) / 2)) + real (bheight img) / 2
         = real_of_int (snd ij) + 1 / 2"
  shows "code_layer B img rot fl x y = premultiply (pick img ij)"
proof -
  have q: "quarter_matrix (code_matrix (bwidth img) (bheight img) rot fl)"
    using assms(1-4) by (rule quarter_code_matrix)
  have "code_layer B img rot fl x y = premultiply (pick img (fst ij, snd ij))"
    unfolding code_layer_coords Let_def assms(1,2) by (rule sample_at [OF assms(5,6) q])
  then show ?thesis by simp
qed

lemma axis_coord:
  "even (w + d) \<Longrightarrow>
   real_of_int (axis forward w d z)
     = (if forward then real_of_int z + (real w - real d) / 2
        else (real w + real d) / 2 - 1 - real_of_int z)"
  using coord_axis [of w d z] by (cases forward) (simp_all add: coord_def field_simps)

lemma code_layer_quarter:
  assumes k: "k < 4" and al: "even k \<or> even (bwidth img + bheight img)"
  shows "code_layer B img (90 * int k) fl x y =
         premultiply (pick img (source_index (bwidth img) (bheight img) k (horizontal fl) (vertical fl) x y))"
proof -
  from k consider "k = 0" | "k = 1" | "k = 2" | "k = 3" by linarith
  then show ?thesis
  proof cases
    case 1
    have "code_layer B img 0 fl x y =
         premultiply (pick img (source_index (bwidth img) (bheight img) 0 (horizontal fl) (vertical fl) x y))"
      by (rule code_layer_cs [OF quarter_trig(1) quarter_trig(2) unit_entries(2) unit_entries(1)])
         (simp_all add: source_index_def axis_coord field_simps)
    with 1 show ?thesis by simp
  next
    case 2
    with al have ev: "even (bwidth img + bheight img)" by simp
    then have ev': "even (bheight img + bwidth img)" by (simp add: add.commute)
    have "code_layer B img 90 fl x y =
         premultiply (pick img (source_index (bwidth img) (bheight img) 1 (horizontal fl) (vertical fl) x y))"
      by (rule code_layer_cs [OF quarter_trig(3) quarter_trig(4) unit_entries(1) unit_entries(2)])
         (simp_all add: source_index_def axis_coord [OF ev] axis_coord [OF ev'] field_simps)
    with 2 show ?thesis by simp
  next
    case 3
    have "code_layer B img 180 fl x y =
         premultiply (pick img (source_index (bwidth img) (bheight img) 2 (horizontal fl) (vertical fl) x y))"
      by (rule code_layer_cs [OF quarter_trig(5) quarter_trig(6) unit_entries(3) unit_entries(1)])
         (simp_all add: source_index_def axis_coord field_simps)
    with 3 show ?thesis by simp
  next
    case 4
    with al have ev: "even (bwidth img + bheight img)" by simp
    then have ev': "even (bheight img + bwidth img)" by (simp add: add.commute)
    have "code_layer B img 270 fl x y =
         premultiply (pick img (source_index (bwidth img) (bheight img) 3 (horizontal fl) (vertical fl) x y))"
      by (rule code_layer_cs [OF quarter_trig(7) quarter_trig(8) unit_entries(1) unit_entries(3)])
         (simp_all add: source_index_def axis_coord [OF ev] axis_coord [OF ev'] field_simps)
    with 4 show ?thesis by simp
  qed
qed

lemma dims_spec_flips [simp]:
  "bwidth (spec_flips fh fv b) = bwidth b" "bheight (spec_flips fh fv b) = bheight b"
  by (simp_all add: spec_flips_def spec_flip_h_def spec_flip_v_def Let_def)

lemma px_spec_flips:
  "x < bwidth b \<Longrightarrow> y < bheight b \<Longrightarrow>
   px (spec_flips fh fv b) x y =
     px b (if fh then bwidth b - 1 - x else x) (if fv then bheight b - 1 - y else y)"
  by (simp add: spec_flips_def spec_flip_h_def spec_flip_v_def Let_def px_tabulate)

lemma dims_spec_rotate [simp]:
  "bwidth (spec_rotate 0 b) = bwidth b" "bheight (spec_rotate 0 b) = bheight b"
  "bwidth (spec_rotate (Suc 0) b) = bheight b" "bheight (spec_rotate (Suc 0) b) = bwidth b"
  "bwidth (spec_rotate 2 b) = bwidth b" "bheight (spec_rotate 2 b) = bheight b"
  "bwidth (spec_rotate 3 b) = bheight b" "bheight (spec_rotate 3 b) = bwidth b"
  by (simp_all add: spec_rotate_def)

lemma px_spec_rotate:
  "px (spec_rotate 0 b) x y = px b x y"
  "x < bheight b \<Longrightarrow> y < bwidth b \<Longrightarrow> px (spec_rotate (Suc 0) b) x y = px b y (bheight b - 1 - x)"
  "x < bwidth b \<Longrightarrow> y < bheight b \<Longrightarrow> px (spec_rotate 2 b) x y = px b (bwidth b - 1 - x) (bheight b - 1 - y)"
  "x < bheight b \<Longrightarrow> y < bwidth b \<Longrightarrow> px (spec_rotate 3 b) x y = px b (bwidth b - 1 - y) x"
  by (simp_all add: spec_rotate_def px_tabulate)

lemma centred_0:
  assumes "x < bwidth img" "y < bheight img"
  shows "px (place_centred (bwidth img) (bheight img) (flip_then_rotate 0 fh fv img)) x y
         = pick img (source_index (bwidth img) (bheight img) 0 fh fv (int x) (int y))"
  using assms
  by (auto simp: place_centred_def px_tabulate flip_then_rotate_def Let_def px_spec_rotate px_spec_flips pick_def source_index_def axis_def
      nat_diff_distrib intro!: arg_cong2 [where f = "px img"])

lemma aligned_half:
  assumes "even (w + h)"
  obtains m where "int w = int h + 2 * m"
proof -
  from assms have "even (int w - int h)" by simp
  then obtain m where "int w - int h = 2 * m" by (elim evenE)
  then have "int w = int h + 2 * m" by simp
  then show thesis by (rule that)
qed

lemma centred_1:
  assumes "x < bwidth img" "y < bheight img" and ev: "even (bwidth img + bheight img)"
  shows "px (place_centred (bwidth img) (bheight img) (flip_then_rotate (Suc 0) fh fv img)) x y
         = pick img (source_index (bwidth img) (bheight img) (Suc 0) fh fv (int x) (int y))"
proof -
  from ev obtain m where m: "int (bwidth img) = int (bheight img) + 2 * m"
    by (rule aligned_half)
  show ?thesis
    using assms(1,2) m
    by (auto simp: place_centred_def px_tabulate flip_then_rotate_def Let_def px_spec_rotate px_spec_flips pick_def source_index_def axis_def
      nat_diff_distrib intro!: arg_cong2 [where f = "px img"])
qed

lemma centred_2:
  assumes "x < bwidth img" "y < bheight img"
  shows "px (place_centred (bwidth img) (bheight img) (flip_then_rotate 2 fh fv img)) x y
         = pick img (source_index (bwidth img) (bheight img) 2 fh fv (int x) (int y))"
  using assms
  by (auto simp: place_centred_def px_tabulate flip_then_rotate_def Let_def px_spec_rotate px_spec_flips pick_def source_index_def axis_def
      nat_diff_distrib intro!: arg_cong2 [where f = "px img"])

lemma centred_3:
  assumes "x < bwidth img" "y < bheight img" and ev: "even (bwidth img + bheight img)"
  shows "px (place_centred (bwidth img) (bheight img) (flip_then_rotate 3 fh fv img)) x y
         = pick img (source_index (bwidth img) (bheight img) 3 fh fv (int x) (int y))"
proof -
  from ev obtain m where m: "int (bwidth img) = int (bheight img) + 2 * m"
    by (rule aligned_half)
  show ?thesis
    using assms(1,2) m
    by (auto simp: place_centred_def px_tabulate flip_then_rotate_def Let_def px_spec_rotate px_spec_flips pick_def source_index_def axis_def
      nat_diff_distrib intro!: arg_cong2 [where f = "px img"])
qed

lemma place_centred_px:
  "place_centred w h b = tabulate w h (px (place_centred w h b))"
proof -
  have "wf_bitmap (place_centred w h b)"
    by (simp add: place_centred_def wf_tabulate)
  from tabulate_px [OF this] show ?thesis
    by (simp add: place_centred_def)
qed

lemma place_centred_pick:
  assumes k: "k < 4" and al: "even k \<or> even (bwidth img + bheight img)"
  shows "place_centred (bwidth img) (bheight img) (flip_then_rotate k fh fv img)
       = tabulate (bwidth img) (bheight img)
           (\<lambda>x y. pick img (source_index (bwidth img) (bheight img) k fh fv (int x) (int y)))"
proof -
  from k consider "k = 0" | "k = Suc 0" | "k = 2" | "k = 3" by linarith
  then have "px (place_centred (bwidth img) (bheight img) (flip_then_rotate k fh fv img)) x y
       = pick img (source_index (bwidth img) (bheight img) k fh fv (int x) (int y))"
    if "x < bwidth img" "y < bheight img" for x y
  proof cases
    case 1
    show ?thesis unfolding 1 using that by (rule centred_0)
  next
    case 2
    with al have ev: "even (bwidth img + bheight img)" by simp
    show ?thesis unfolding 2 using that ev by (rule centred_1)
  next
    case 3
    show ?thesis unfolding 3 using that by (rule centred_2)
  next
    case 4
    with al have ev: "even (bwidth img + bheight img)" by simp
    show ?thesis unfolding 4 using that ev by (rule centred_3)
  qed
  then have "tabulate (bwidth img) (bheight img)
        (px (place_centred (bwidth img) (bheight img) (flip_then_rotate k fh fv img)))
      = tabulate (bwidth img) (bheight img)
           (\<lambda>x y. pick img (source_index (bwidth img) (bheight img) k fh fv (int x) (int y)))"
    by (rule tabulate_cong)
  then show ?thesis
    using place_centred_px [of "bwidth img" "bheight img" "flip_then_rotate k fh fv img"] by simp
qed

subsection \<open>Filters and the drawn bitmap\<close>

lemma applyFilters_Some:
  "applyFilters B (Some c0) (Some img) adj rot fl = Some (onload B c0 img adj rot fl)"
  by (simp add: applyFilters_def getContext_def)

lemma apply_filter_four:
  "apply_filter_list B [FBrightness b, FContrast c, FSaturate s, FBlur r] A =
     fe_blur B r (fe_saturate s (fe_contrast c (fe_brightness b A)))"
  by (simp add: apply_filter_list_def)

lemma code_filter_parses:
  "0 \<le> brightness adj \<Longrightarrow> 0 \<le> contrast adj \<Longrightarrow> 0 \<le> saturation adj \<Longrightarrow> 0 \<le> blur adj \<Longrightarrow>
   code_filter adj = [FBrightness (brightness adj), FContrast (contrast adj),
                      FSaturate (saturation adj), FBlur (blur adj)]"
  by (simp add: code_filter_def parse_filter_def)

lemma toDataURL_tabulate:
  "toDataURL \<lparr>obitmap = tabulate w h f, cstate = st, cstack = sk\<rparr>
     = tabulate w h (\<lambda>x y. unpremultiply (f x y))"
  unfolding toDataURL_def by (simp, rule tabulate_cong, simp add: px_tabulate)

lemma drawn_closed:
  "drawn B img adj rot fl =
     Some (tabulate (bwidth img) (bheight img)
        (\<lambda>x y. unpremultiply
           (apply_filter_list B (code_filter adj) (code_layer B img rot fl) (int x) (int y))))"
  by (simp add: drawn_def applyFilters_Some onload_closed toDataURL_tabulate)

lemma pointwise_filters:
  assumes "0 \<le> brightness adj" "0 \<le> contrast adj" "0 \<le> saturation adj" "blur adj = 0"
  shows "apply_filter_list B (code_filter adj) A x y
           = pixel_chain (brightness adj) (contrast adj) (saturation adj) (A x y)"
  using assms
  by (simp add: code_filter_parses apply_filter_four fe_blur_def fe_saturate_def fe_contrast_def
      fe_brightness_def pixel_chain_def)

lemma drawn_quarter_pointwise:
  assumes "0 \<le> brightness adj" "0 \<le> contrast adj" "0 \<le> saturation adj" "blur adj = 0"
    and "k < 4" and "even k \<or> even (bwidth img + bheight img)"
  shows "drawn B img adj (90 * int k) fl =
     Some (tabulate (bwidth img) (bheight img)
        (\<lambda>x y. shown (brightness adj) (contrast adj) (saturation adj)
           (pick img (source_index (bwidth img) (bheight img) k (horizontal fl) (vertical fl)
              (int x) (int y)))))"
  by (simp add: drawn_closed pointwise_filters [OF assms(1-4)] code_layer_quarter [OF assms(5,6)]
      shown_def)

lemma shown_defaults_opaque: "alpha p = 255 \<Longrightarrow> shown 100 100 100 p = p"
  by (simp add: shown_def pixel_chain_def premultiply_opaque default_px_opaque unpremultiply_opaque)

lemma shown_clear: "shown b c s transparent_black = transparent_black"
proof -
  have "premultiply transparent_black = transparent_black"
    by (rule premultiply_clear) (simp add: transparent_black_def)
  then show ?thesis
    by (simp add: shown_def pixel_chain_def default_px_clear)
qed

lemma shown_translucent: "shown 100 100 100 (RGBA 200 100 50 3) = RGBA 170 85 85 3"
  by (simp add: shown_def pixel_chain_def premultiply_def unpremultiply_def on_colour_def
      brightness_px_def contrast_px_def saturate_px_def brightness_table_def contrast_table_def
      saturate_matrix_def nearest_def clamp8_def mul8_def div8_def transparent_black_def Let_def)

lemma shown_bright_200: "shown 200 100 100 (RGBA 200 200 200 255) = RGBA 255 255 255 255"
  by (simp add: shown_def pixel_chain_def premultiply_def unpremultiply_def on_colour_def
      brightness_px_def contrast_px_def saturate_px_def brightness_table_def contrast_table_def
      saturate_matrix_def nearest_def clamp8_def mul8_def div8_def transparent_black_def Let_def)

lemma shown_all_three: "shown 150 50 200 (RGBA 170 200 20 255) = RGBA 199 199 0 255"
  by (simp add: shown_def pixel_chain_def premultiply_def unpremultiply_def on_colour_def
      brightness_px_def contrast_px_def saturate_px_def brightness_table_def contrast_table_def
      saturate_matrix_def nearest_def clamp8_def mul8_def div8_def transparent_black_def Let_def)

lemma place_centred_same_dims:
  assumes "wf_bitmap b"
  shows "place_centred (bwidth b) (bheight b) b = b"
proof -
  have "place_centred (bwidth b) (bheight b) b = tabulate (bwidth b) (bheight b) (px b)"
    unfolding place_centred_def by (rule tabulate_cong) simp
  with assms show ?thesis by (simp add: tabulate_px)
qed

lemma wf_spec_flips: "wf_bitmap b \<Longrightarrow> wf_bitmap (spec_flips fh fv b)"
  by (simp add: spec_flips_def spec_flip_h_def spec_flip_v_def Let_def wf_tabulate)

lemma wf_spec_rotate: "wf_bitmap b \<Longrightarrow> wf_bitmap (spec_rotate k b)"
  by (simp add: spec_rotate_def wf_tabulate)

lemma wf_flip_then_rotate: "wf_bitmap b \<Longrightarrow> wf_bitmap (flip_then_rotate k fh fv b)"
  by (simp add: flip_then_rotate_def wf_spec_flips wf_spec_rotate)

lemma spec_flip_h_twice: "wf_bitmap b \<Longrightarrow> spec_flip_h (spec_flip_h b) = b"
proof -
  assume wf: "wf_bitmap b"
  have "spec_flip_h (spec_flip_h b) = tabulate (bwidth b) (bheight b) (px b)"
    unfolding spec_flip_h_def [of "spec_flip_h b"]
    by (simp add: spec_flip_h_def [of b]) (rule tabulate_cong, simp add: px_tabulate)
  with wf show ?thesis by (simp add: tabulate_px)
qed

lemma spec_flip_v_twice: "wf_bitmap b \<Longrightarrow> spec_flip_v (spec_flip_v b) = b"
proof -
  assume wf: "wf_bitmap b"
  have "spec_flip_v (spec_flip_v b) = tabulate (bwidth b) (bheight b) (px b)"
    unfolding spec_flip_v_def [of "spec_flip_v b"]
    by (simp add: spec_flip_v_def [of b]) (rule tabulate_cong, simp add: px_tabulate)
  with wf show ?thesis by (simp add: tabulate_px)
qed

lemma opaque_px:
  assumes "wf_bitmap b" and "opaque b" and "x < bwidth b" and "y < bheight b"
  shows "alpha (px b x y) = 255"
proof -
  from assms(1,4) have y: "y < length (bdata b)" by (simp add: wf_bitmap_def)
  with assms(1,3) have x: "x < length (bdata b ! y)" by (simp add: wf_bitmap_def list_all_length)
  from assms(2) y have "list_all (\<lambda>p. alpha p = 255) (bdata b ! y)"
    by (simp add: opaque_def list_all_length)
  with x show ?thesis by (simp add: px_def list_all_length)
qed

lemma opaque_tabulate:
  assumes "\<And>x y. x < w \<Longrightarrow> y < h \<Longrightarrow> alpha (f x y) = 255"
  shows "opaque (tabulate w h f)"
  using assms by (simp add: opaque_def tabulate_def list_all_iff)

lemma opaque_spec_flip:
  assumes "wf_bitmap b" and "opaque b"
  shows "opaque (spec_flip_h b)" and "opaque (spec_flip_v b)"
  unfolding spec_flip_h_def spec_flip_v_def
  by (rule opaque_tabulate, rule opaque_px [OF assms], simp_all)+

lemma shown_defaults_pick:
  assumes "wf_bitmap img" and "opaque img"
  shows "shown 100 100 100 (pick img ij) = pick img ij"
proof (cases "0 \<le> fst ij \<and> fst ij < int (bwidth img) \<and> 0 \<le> snd ij \<and> snd ij < int (bheight img)")
  case True
  then have "alpha (px img (nat (fst ij)) (nat (snd ij))) = 255"
    by (intro opaque_px [OF assms]) linarith+
  with True show ?thesis by (simp add: pick_def shown_defaults_opaque)
next
  case False
  then show ?thesis by (auto simp: pick_def shown_clear)
qed

lemma initial_parameters:
  "adjustments_s initial_app = default_adjustments" "rotation initial_app = 0"
  "flip_s initial_app = no_flip" "horizontal no_flip = False" "vertical no_flip = False"
  by (simp_all add: default_adjustments_def no_flip_def initial_app_def)

lemma default_values [simp]:
  "brightness default_adjustments = 100" "contrast default_adjustments = 100"
  "saturation default_adjustments = 100" "blur default_adjustments = 0"
  by (simp_all add: default_adjustments_def initial_app_def)

lemma drawn_default_quarter_any:
  assumes "k < 4" and "even k \<or> even (bwidth img + bheight img)"
  shows "drawn B img default_adjustments (90 * int k) fl =
     Some (tabulate (bwidth img) (bheight img)
        (\<lambda>x y. shown 100 100 100
           (pick img (source_index (bwidth img) (bheight img) k (horizontal fl) (vertical fl)
              (int x) (int y)))))"
  using drawn_quarter_pointwise [of default_adjustments k img B fl, OF _ _ _ _ assms]
  by simp

lemma drawn_default_quarter:
  assumes "wf_bitmap img" and "opaque img"
    and "k < 4" and "even k \<or> even (bwidth img + bheight img)"
  shows "drawn B img default_adjustments (90 * int k) fl =
         Some (place_centred (bwidth img) (bheight img)
                 (flip_then_rotate k (horizontal fl) (vertical fl) img))"
  by (simp add: drawn_default_quarter_any [OF assms(3,4)] shown_defaults_pick [OF assms(1,2)]
      place_centred_pick [OF assms(3,4)])

lemma applyFilters_drawn:
  "map_option toDataURL (applyFilters B (Some c0) (Some img) adj rot fl) = drawn B img adj rot fl"
  by (simp add: drawn_def applyFilters_Some onload_closed)

lemma flip_then_rotate_plain: "flip_then_rotate 0 False False b = b"
  by (simp add: flip_then_rotate_def spec_rotate_def spec_flips_def)

lemma drawn_defaults:
  "wf_bitmap img \<Longrightarrow> opaque img \<Longrightarrow> drawn B img default_adjustments 0 no_flip = Some img"
  using drawn_default_quarter [of img 0 B no_flip]
  by (simp add: initial_parameters flip_then_rotate_plain place_centred_same_dims)

lemma flip_only_simps [simp]:
  "horizontal flip_h_only = True" "vertical flip_h_only = False"
  "horizontal flip_v_only = False" "vertical flip_v_only = True"
  by (simp_all add: flip_h_only_def flip_v_only_def)

lemma spec_flips_h: "spec_flips True False b = spec_flip_h b"
  and spec_flips_v: "spec_flips False True b = spec_flip_v b"
  by (simp_all add: spec_flips_def)

lemma drawn_flip_h:
  "wf_bitmap b \<Longrightarrow> opaque b \<Longrightarrow> drawn B b default_adjustments 0 flip_h_only = Some (spec_flip_h b)"
proof -
  assume wf: "wf_bitmap b" and op: "opaque b"
  from wf have "wf_bitmap (spec_flips True False b)" by (rule wf_spec_flips)
  from place_centred_same_dims [OF this]
  have "place_centred (bwidth b) (bheight b) (spec_flip_h b) = spec_flip_h b"
    by (simp add: spec_flips_h [symmetric])
  then show ?thesis
    using drawn_default_quarter [OF wf op, of 0 B flip_h_only]
    by (simp add: flip_then_rotate_def spec_rotate_def spec_flips_h)
qed

lemma drawn_flip_v:
  "wf_bitmap b \<Longrightarrow> opaque b \<Longrightarrow> drawn B b default_adjustments 0 flip_v_only = Some (spec_flip_v b)"
proof -
  assume wf: "wf_bitmap b" and op: "opaque b"
  from wf have "wf_bitmap (spec_flips False True b)" by (rule wf_spec_flips)
  from place_centred_same_dims [OF this]
  have "place_centred (bwidth b) (bheight b) (spec_flip_v b) = spec_flip_v b"
    by (simp add: spec_flips_v [symmetric])
  then show ?thesis
    using drawn_default_quarter [OF wf op, of 0 B flip_v_only]
    by (simp add: flip_then_rotate_def spec_rotate_def spec_flips_v)
qed

lemma wf_spec_flip: "wf_bitmap (spec_flip_h b)" "wf_bitmap (spec_flip_v b)"
  by (simp_all add: spec_flip_h_def spec_flip_v_def wf_tabulate)

lemma onload_before_draw:
  "onload B c0 img adj rot fl =
     restore (drawImage B (before_draw c0 img adj rot fl) img
                (- (real (bwidth img) / 2)) (- (real (bheight img) / 2)))"
  by (simp add: onload_def before_draw_def Let_def)

lemma before_draw_matrix:
  "transform (cstate (before_draw c0 img adj rot fl)) = code_matrix (bwidth img) (bheight img) rot fl"
  by (simp add: before_draw_def Let_def set_width_def set_height_def set_filter_def save_def
      translate_def rotate_c_def scale_c_def with_transform_def default_state_def identity_matrix_def
      code_matrix_def blank_def split: option.split)

lemma code_matrix_point:
  "apply_matrix (code_matrix w h rot fl) p =
     shift_point (real w / 2) (real h / 2) (rotate_point (real_of_int rot * pi / 180) (flip_point fl p))"
  by (simp add: apply_matrix_def code_matrix_def shift_point_def rotate_point_def flip_point_def Let_def)

subsection \<open>The sample pictures\<close>

lemma wf_sample_2x2: "wf_bitmap sample_2x2"
  by (simp add: wf_bitmap_def sample_2x2_def)

lemma opaque_sample_2x2: "opaque sample_2x2"
  by (simp add: opaque_def sample_2x2_def)

lemma dims_sample_2x2: "bwidth sample_2x2 = 2" "bheight sample_2x2 = 2"
  by (simp_all add: sample_2x2_def)

lemma upt_2: "[0..<2] = [0, Suc 0]"
  by (simp add: upt_rec)

lemma ftr_sample:
  "flip_then_rotate (Suc 0) True False sample_2x2 =
     \<lparr>bwidth = 2, bheight = 2,
      bdata = [[RGBA 40 0 0 255, RGBA 20 0 0 255], [RGBA 30 0 0 255, RGBA 10 0 0 255]]\<rparr>"
  by (simp add: flip_then_rotate_def spec_flips_def spec_flip_h_def spec_rotate_def tabulate_def
      px_def sample_2x2_def upt_2)

lemma rtf_sample:
  "rotate_then_flip (Suc 0) True False sample_2x2 =
     \<lparr>bwidth = 2, bheight = 2,
      bdata = [[RGBA 10 0 0 255, RGBA 30 0 0 255], [RGBA 20 0 0 255, RGBA 40 0 0 255]]\<rparr>"
  by (simp add: rotate_then_flip_def spec_flips_def spec_flip_h_def spec_rotate_def tabulate_def
      px_def sample_2x2_def upt_2)

lemma drawn_sample_quarter_flip_h:
  "drawn sample_browser sample_2x2 default_adjustments 90 flip_h_only
     = Some (flip_then_rotate (Suc 0) True False sample_2x2)"
proof -
  have "wf_bitmap (flip_then_rotate (Suc 0) True False sample_2x2)"
    using wf_sample_2x2 by (rule wf_flip_then_rotate)
  from place_centred_same_dims [OF this]
  have "place_centred 2 2 (flip_then_rotate (Suc 0) True False sample_2x2)
        = flip_then_rotate (Suc 0) True False sample_2x2"
    by (simp add: ftr_sample)
  then show ?thesis
    using drawn_default_quarter [OF wf_sample_2x2 opaque_sample_2x2, of "Suc 0" sample_browser flip_h_only]
    by (simp add: dims_sample_2x2)
qed

lemma tabulate_one: "tabulate (Suc 0) (Suc 0) f = one_pixel (f 0 0)"
  by (simp add: tabulate_def one_pixel_def)

lemma dims_one_pixel [simp]: "bwidth (one_pixel p) = 1" "bheight (one_pixel p) = 1"
  by (simp_all add: one_pixel_def)

lemma pick_one_pixel: "pick (one_pixel p) (source_index 1 1 0 False False 0 0) = p"
  by (simp add: source_index_def axis_def pick_def) (simp add: px_def one_pixel_def)

lemma code_layer_one_pixel: "code_layer B (one_pixel p) 0 no_flip 0 0 = premultiply p"
  using code_layer_quarter [of 0 "one_pixel p" B no_flip 0 0]
  by (simp add: initial_parameters pick_one_pixel [simplified])

lemma drawn_one_pixel:
  assumes "0 \<le> brightness adj" "0 \<le> contrast adj" "0 \<le> saturation adj" "blur adj = 0"
  shows "drawn B (one_pixel p) adj 0 no_flip
           = Some (one_pixel (shown (brightness adj) (contrast adj) (saturation adj) p))"
  using drawn_quarter_pointwise [OF assms, of 0 "one_pixel p" B no_flip]
  by (simp add: tabulate_one initial_parameters pick_one_pixel [simplified])

lemma stored_one_pixel:
  assumes "0 \<le> brightness adj" "0 \<le> contrast adj" "0 \<le> saturation adj" "blur adj = 0"
  shows "map_option obitmap (applyFilters B (Some c0) (Some (one_pixel p)) adj 0 no_flip)
           = Some (one_pixel (pixel_chain (brightness adj) (contrast adj) (saturation adj) (premultiply p)))"
  by (simp add: applyFilters_Some onload_closed tabulate_one pointwise_filters [OF assms]
      code_layer_one_pixel)

lemmas pixel_defs = shown_def pixel_chain_def premultiply_def unpremultiply_def on_colour_def
      brightness_px_def contrast_px_def saturate_px_def brightness_table_def contrast_table_def
      saturate_matrix_def nearest_def clamp8_def mul8_def div8_def transparent_black_def Let_def

lemma chain_bright_250:
  "pixel_chain 250 100 100 (premultiply (RGBA 100 100 100 255)) = RGBA 250 250 250 255"
  by (simp add: pixel_defs)

lemma chain_all_three:
  "pixel_chain 150 50 200 (premultiply (RGBA 170 200 20 255)) = RGBA 199 199 0 255"
  by (simp add: pixel_defs)

lemma other_orders:
  "contrast_px 50 (saturate_px 200 (brightness_px 150 (RGBA 170 200 20 255))) = RGBA 191 191 63 255"
  "saturate_px 200 (brightness_px 150 (contrast_px 50 (RGBA 170 200 20 255))) = RGBA 214 255 0 255"
  "brightness_px 150 (saturate_px 200 (contrast_px 50 (RGBA 170 200 20 255))) = RGBA 214 255 0 255"
  "contrast_px 50 (brightness_px 150 (saturate_px 200 (RGBA 170 200 20 255))) = RGBA 182 191 63 255"
  "brightness_px 150 (contrast_px 50 (saturate_px 200 (RGBA 170 200 20 255))) = RGBA 214 255 94 255"
  by (simp_all add: pixel_defs)

lemma shown_again: "shown 100 100 100 (RGBA 170 85 85 3) = RGBA 170 85 85 3"
  by (simp add: pixel_defs)

lemma drawn_translucent_flip_h:
  "drawn sample_browser translucent_2x1 default_adjustments 0 flip_h_only =
     Some \<lparr>bwidth = 2, bheight = 1, bdata = [[RGBA 10 0 0 255, RGBA 170 85 85 3]]\<rparr>"
proof -
  have p: "shown 100 100 100 (RGBA 10 0 0 255) = RGBA 10 0 0 255"
    by (rule shown_defaults_opaque) simp
  show ?thesis
    using drawn_default_quarter_any [of 0 translucent_2x1 sample_browser flip_h_only]
    by (simp add: translucent_2x1_def tabulate_def upt_2 source_index_def axis_def pick_def px_def
        shown_translucent p)
qed

lemma drawn_translucent_flip_h_again:
  "drawn sample_browser
     \<lparr>bwidth = 2, bheight = 1, bdata = [[RGBA 10 0 0 255, RGBA 170 85 85 3]]\<rparr>
     default_adjustments 0 flip_h_only =
     Some \<lparr>bwidth = 2, bheight = 1, bdata = [[RGBA 170 85 85 3, RGBA 10 0 0 255]]\<rparr>"
proof -
  have p: "shown 100 100 100 (RGBA 10 0 0 255) = RGBA 10 0 0 255"
    by (rule shown_defaults_opaque) simp
  show ?thesis
    using drawn_default_quarter_any [of 0
        "\<lparr>bwidth = 2, bheight = 1, bdata = [[RGBA 10 0 0 255, RGBA 170 85 85 3]]\<rparr>"
        sample_browser flip_h_only]
    by (simp add: tabulate_def upt_2 source_index_def axis_def pick_def px_def shown_again p)
qed

subsection \<open>Runs and events\<close>

lemma effect_frame:
  "image_s (effect B s) = image_s s" "adjustments_s (effect B s) = adjustments_s s"
  "rotation (effect B s) = rotation s" "flip_s (effect B s) = flip_s s"
  by (simp_all add: effect_def Let_def split: option.split)

lemma effect_canvas:
  "canvasRef (effect B s) =
     applyFilters B (Some fresh_canvas) (image_s s) (adjustments_s s) (rotation s) (flip_s s)"
proof (cases "image_s s")
  case None
  then show ?thesis
    by (simp add: effect_def Let_def mount_def applyFilters_def getContext_def)
next
  case (Some img)
  then show ?thesis
    by (cases "canvasRef s")
       (simp_all add: effect_def Let_def mount_def applyFilters_Some onload_closed)
qed

lemma rotation_step_eq: "rotation (step B e s) = rotation (update e s)"
  by (simp add: step_def effect_frame)

lemma rotation_step:
  "rotation s \<in> {0, 90, 180, 270} \<Longrightarrow> rotation (step B e s) \<in> {0, 90, 180, 270}"
  by (cases e) (auto simp: rotation_step_eq signed_modulo_int_def split: option.split)

lemma rotation_run:
  "rotation s \<in> {0, 90, 180, 270} \<Longrightarrow> rotation (run B es s) \<in> {0, 90, 180, 270}"
  unfolding run_def
proof (induction es arbitrary: s)
  case Nil
  then show ?case by simp
next
  case (Cons e es)
  from Cons.prems have "rotation (step B e s) \<in> {0, 90, 180, 270}" by (rule rotation_step)
  then show ?case using Cons.IH by simp
qed

lemma step_fields:
  "image_s (step B e s) = image_s (update e s)"
  "adjustments_s (step B e s) = adjustments_s (update e s)"
  "rotation (step B e s) = rotation (update e s)"
  "flip_s (step B e s) = flip_s (update e s)"
  by (simp_all add: step_def effect_frame)

lemma run_snoc: "run B (es @ [e]) s = step B e (run B es s)"
  by (simp add: run_def)

lemma step_canvas:
  "canvasRef (step B e s) =
     applyFilters B (Some fresh_canvas) (image_s (step B e s)) (adjustments_s (step B e s))
       (rotation (step B e s)) (flip_s (step B e s))"
  by (simp add: step_def effect_canvas effect_frame)

lemma run_canvas:
  "canvasRef (run B es initial_app) =
     applyFilters B (Some fresh_canvas) (image_s (run B es initial_app))
       (adjustments_s (run B es initial_app)) (rotation (run B es initial_app))
       (flip_s (run B es initial_app))"
proof (cases es rule: rev_cases)
  case Nil
  then show ?thesis
    by (simp add: run_def initial_app_def applyFilters_def getContext_def)
next
  case (snoc es' e)
  then show ?thesis
    by (simp only: run_snoc step_canvas)
qed

lemma applyFilters_any_canvas:
  "applyFilters B (Some c1) image0 adj rot fl = applyFilters B (Some c2) image0 adj rot fl"
  by (cases image0) (simp_all add: applyFilters_def getContext_def onload_closed)

lemma image_step:
  "image_s (step B e s) = (case e of ImageUpload (Some b) \<Rightarrow> Some b | _ \<Rightarrow> image_s s)"
  by (cases e) (simp_all add: step_def effect_frame split: option.split)

lemma chain_clear: "pixel_chain b c s transparent_black = transparent_black"
  by (simp add: pixel_chain_def default_px_clear)

lemma layer_one_pixel:
  "code_layer B (one_pixel p) 0 no_flip x 0 = (if x = 0 then premultiply p else transparent_black)"
proof -
  have "pick (one_pixel p) (source_index 1 1 0 False False x 0)
          = (if x = 0 then p else transparent_black)"
    by (simp add: source_index_def axis_def pick_def) (simp add: px_def one_pixel_def)
  moreover have "premultiply transparent_black = transparent_black"
    by (rule premultiply_clear) (simp add: transparent_black_def)
  ultimately show ?thesis
    using code_layer_quarter [of 0 "one_pixel p" B no_flip x 0]
    by (simp add: initial_parameters)
qed

lemma mean_channel_window:
  "mean_channel ch A 2 0 y =
     of_nat ((unat (ch (A (- 2) y)) + unat (ch (A (- 1) y)) + unat (ch (A 0 y)) +
              unat (ch (A 1 y)) + unat (ch (A 2 y))) div 5)"
  by (simp add: mean_channel_def upto.simps add.assoc)

lemma gauss_sample_browser: "gauss sample_browser = box_kernel"
  by (simp add: sample_browser_def)

lemma layer_all_three:
  "fe_saturate 200 (fe_contrast 50 (fe_brightness 150
      (code_layer B (one_pixel (RGBA 170 200 20 255)) 0 no_flip))) x 0
   = (if x = 0 then RGBA 199 199 0 255 else RGBA 0 0 0 0)"
  using chain_all_three chain_clear [of 150 50 200]
  by (simp add: fe_saturate_def fe_contrast_def fe_brightness_def layer_one_pixel
      pixel_chain_def transparent_black_def)

lemma blurred_all_three:
  "fe_blur sample_browser 2
     (fe_saturate 200 (fe_contrast 50 (fe_brightness 150
        (code_layer sample_browser (one_pixel (RGBA 170 200 20 255)) 0 no_flip)))) 0 0
   = RGBA 39 39 0 51"
  by (simp add: fe_blur_def gauss_sample_browser box_kernel_def mean_channel_window layer_all_three)

lemma chain_defaults_pick:
  assumes "wf_bitmap img" and "opaque img"
  shows "pixel_chain 100 100 100 (premultiply (pick img ij)) = pick img ij"
proof -
  have "alpha (pick img ij) = 255 \<or> pick img ij = transparent_black"
    using opaque_px [OF assms, of "nat (fst ij)" "nat (snd ij)"]
    by (auto simp: pick_def)
  then show ?thesis
  proof
    assume "alpha (pick img ij) = 255"
    then show ?thesis
      by (simp add: pixel_chain_def premultiply_opaque default_px_opaque)
  next
    assume t: "pick img ij = transparent_black"
    have "premultiply transparent_black = transparent_black"
      by (rule premultiply_clear) (simp add: transparent_black_def)
    with t show ?thesis by (simp add: chain_clear)
  qed
qed

lemma stored_defaults:
  assumes "wf_bitmap img" and "opaque img"
  shows "map_option obitmap (applyFilters B (Some c0) (Some img) default_adjustments 0 no_flip)
           = Some img"
proof -
  have a: "even (0::nat) \<or> even (bwidth img + bheight img)" by simp
  have "apply_filter_list B (code_filter default_adjustments) (code_layer B img 0 no_flip) (int x) (int y)
          = pick img (source_index (bwidth img) (bheight img) 0 False False (int x) (int y))" for x y
    using code_layer_quarter [of 0 img B no_flip "int x" "int y"]
    by (simp add: pointwise_filters chain_defaults_pick [OF assms] initial_parameters)
  then have "map_option obitmap (applyFilters B (Some c0) (Some img) default_adjustments 0 no_flip)
      = Some (place_centred (bwidth img) (bheight img) (flip_then_rotate 0 False False img))"
    using place_centred_pick [of 0 img False False]
    by (simp add: applyFilters_Some onload_closed)
  with assms(1) show ?thesis
    by (simp add: flip_then_rotate_plain place_centred_same_dims)
qed

lemma step_twice_canvas:
  assumes "update e (update e s) = s"
  shows "canvasRef (step B e (step B e s)) = canvasRef (effect B s)"
proof -
  have f: "image_s (update e (step B e s)) = image_s (update e (update e s))"
    "adjustments_s (update e (step B e s)) = adjustments_s (update e (update e s))"
    "rotation (update e (step B e s)) = rotation (update e (update e s))"
    "flip_s (update e (step B e s)) = flip_s (update e (update e s))"
    by (cases e; simp add: step_fields split: option.split)+
  show ?thesis
    by (simp add: step_canvas step_fields f assms effect_canvas)
qed

lemma flip_clicks_restore:
  "update FlipHClick (update FlipHClick s) = s" "update FlipVClick (update FlipVClick s) = s"
  by simp_all

section \<open>C1: dimensions of the output\<close>

text \<open>
  C1, as the specification states it, fails: a quarter turn does not swap the
  dimensions. The 2 by 1 sample turned by 90 degrees is drawn on a canvas that is
  still 2 by 1, where the specification expects 1 by 2.
\<close>

theorem dimension_swap_counterexample:
  "map_option canvas_dims
     (applyFilters sample_browser (Some fresh_canvas) (Some sample_2x1) default_adjustments 90 no_flip)
   \<noteq> Some (spec_output_dims sample_2x1 90)"
  by (simp add: applyFilters_Some onload_closed canvas_dims_def spec_output_dims_def sample_2x1_def)

text \<open>
  C1, amended. \<^verbatim>\<open>canvas.width = img.width\<close> and \<^verbatim>\<open>canvas.height = img.height\<close>
  come before the transform and do not look at the rotation: for a W by H source
  the output bitmap is W by H for every rotation and every flip, so 0 and 180
  degrees preserve the dimensions and 90 and 270 degrees do not swap them.
\<close>

theorem output_dims_are_source_dims:
  "map_option canvas_dims (applyFilters B (Some c0) (Some img) adj rot fl)
     = Some (bwidth img, bheight img)"
  by (simp add: applyFilters_Some onload_closed canvas_dims_def)

theorem output_dims_are_source_dims_witness:
  "map_option canvas_dims
     (applyFilters sample_browser (Some fresh_canvas) (Some sample_2x1) default_adjustments 270 no_flip)
   = Some (2, 1)"
  using output_dims_are_source_dims
    [of sample_browser fresh_canvas sample_2x1 default_adjustments 270 no_flip]
  by (simp add: sample_2x1_def)

section \<open>C2: order of rotation and flips\<close>

text \<open>
  C2, as the specification states it, fails. \<^verbatim>\<open>scale\<close> is called after
  \<^verbatim>\<open>rotate\<close>, and a later transformation acts on the picture first: the flip
  mirrors the picture in its own frame and the turn comes afterwards. For the 2 by 2
  sample, turned by 90 degrees with the horizontal flip set, the download does not
  show the sample turned and then flipped.
\<close>

theorem rotate_then_flip_counterexample:
  "drawn sample_browser sample_2x2 default_adjustments 90 flip_h_only
     \<noteq> Some (rotate_then_flip 1 True False sample_2x2)"
  by (simp add: drawn_sample_quarter_flip_h ftr_sample rtf_sample)

text \<open>
  C2, amended. For every source, every rotation and every flip, \<^verbatim>\<open>onload\<close> draws
  with the matrix that \<^verbatim>\<open>translate\<close>, \<^verbatim>\<open>rotate\<close> and \<^verbatim>\<open>scale\<close> have built, and
  this matrix takes every point of the picture through the flips first, then
  through the rotation, then to the centre of the canvas: flip, then rotate.

  Pixel for pixel this is stated where the browser copies pixels: for a well-formed
  opaque source, the sliders at their defaults, \<open>k\<close> quarter turns, and the turned
  picture on whole pixels (0 or 180 degrees, or width plus height even). The download
  is then the source flipped first and turned afterwards, centred on a canvas of the
  source's dimensions and cut off at its border; when the turn keeps the dimensions
  (0 or 180 degrees, or a square source) it is exactly the flipped-then-turned
  source. For a quarter turn with width plus height odd the browser blends
  neighbouring pixels, and nothing is stated about the pixel values.
\<close>

theorem flip_then_rotate_drawn:
  "onload B c0 img adj rot fl =
     restore (drawImage B (before_draw c0 img adj rot fl) img
                (- (real (bwidth img) / 2)) (- (real (bheight img) / 2))) \<and>
   apply_matrix (transform (cstate (before_draw c0 img adj rot fl))) p =
     shift_point (real (bwidth img) / 2) (real (bheight img) / 2)
       (rotate_point (real_of_int rot * pi / 180) (flip_point fl p)) \<and>
   (wf_bitmap img \<and> opaque img \<and> k < 4 \<and> (even k \<or> even (bwidth img + bheight img)) \<longrightarrow>
      drawn B img default_adjustments (90 * int k) fl =
        Some (place_centred (bwidth img) (bheight img)
                (flip_then_rotate k (horizontal fl) (vertical fl) img))) \<and>
   (wf_bitmap img \<and> opaque img \<and> k < 4 \<and> (even k \<or> bwidth img = bheight img) \<longrightarrow>
      drawn B img default_adjustments (90 * int k) fl =
        Some (flip_then_rotate k (horizontal fl) (vertical fl) img))"
proof (intro conjI impI)
  show "onload B c0 img adj rot fl =
     restore (drawImage B (before_draw c0 img adj rot fl) img
                (- (real (bwidth img) / 2)) (- (real (bheight img) / 2)))"
    by (rule onload_before_draw)
  show "apply_matrix (transform (cstate (before_draw c0 img adj rot fl))) p =
     shift_point (real (bwidth img) / 2) (real (bheight img) / 2)
       (rotate_point (real_of_int rot * pi / 180) (flip_point fl p))"
    by (simp only: before_draw_matrix code_matrix_point)
next
  assume "wf_bitmap img \<and> opaque img \<and> k < 4 \<and> (even k \<or> even (bwidth img + bheight img))"
  then show "drawn B img default_adjustments (90 * int k) fl =
        Some (place_centred (bwidth img) (bheight img)
                (flip_then_rotate k (horizontal fl) (vertical fl) img))"
    by (intro drawn_default_quarter) simp_all
next
  let ?b = "flip_then_rotate k (horizontal fl) (vertical fl) img"
  assume a: "wf_bitmap img \<and> opaque img \<and> k < 4 \<and> (even k \<or> bwidth img = bheight img)"
  then have al: "even k \<or> even (bwidth img + bheight img)" by auto
  from a have d: "drawn B img default_adjustments (90 * int k) fl =
        Some (place_centred (bwidth img) (bheight img) ?b)"
    by (intro drawn_default_quarter al) simp_all
  from a consider "k = 0" | "k = 1" | "k = 2" | "k = 3" by linarith
  then have dims: "bwidth ?b = bwidth img \<and> bheight ?b = bheight img"
    using a by cases (auto simp: flip_then_rotate_def)
  from a have "wf_bitmap ?b" by (intro wf_flip_then_rotate) simp
  from place_centred_same_dims [OF this] dims d
  show "drawn B img default_adjustments (90 * int k) fl = Some ?b" by simp
qed

theorem flip_then_rotate_drawn_witness:
  "drawn sample_browser sample_2x2 default_adjustments 90 flip_h_only =
     Some \<lparr>bwidth = 2, bheight = 2,
           bdata = [[RGBA 40 0 0 255, RGBA 20 0 0 255], [RGBA 30 0 0 255, RGBA 10 0 0 255]]\<rparr>"
proof -
  have sq: "wf_bitmap sample_2x2 \<and> opaque sample_2x2 \<and> Suc 0 < 4 \<and>
            (even (Suc 0) \<or> bwidth sample_2x2 = bheight sample_2x2)"
    using wf_sample_2x2 opaque_sample_2x2 by (simp add: dims_sample_2x2)
  from flip_then_rotate_drawn [of sample_browser _ sample_2x2 _ _ flip_h_only _ "Suc 0",
      THEN conjunct2, THEN conjunct2, THEN conjunct2, rule_format, OF sq]
  show ?thesis by (simp add: ftr_sample)
qed

section \<open>C3: values outside the nominal ranges\<close>

text \<open>
  C3, as the specification states it, fails: \<^verbatim>\<open>applyFilters\<close> has no range check
  and no error. With brightness 250, outside [0,200], a grey pixel of value 100 is
  drawn with value 250: the value is processed as given, neither rejected nor clamped
  to 200.
\<close>

theorem out_of_range_counterexample:
  "\<not> spec_in_range bright_250 \<and>
   map_option obitmap
     (applyFilters sample_browser (Some fresh_canvas) (Some (one_pixel (RGBA 100 100 100 255)))
        bright_250 0 no_flip)
   = Some (one_pixel (RGBA 250 250 250 255))"
  using stored_one_pixel [of bright_250 sample_browser fresh_canvas "RGBA 100 100 100 255"]
  by (simp add: bright_250_def chain_bright_250 spec_in_range_def)

text \<open>
  C3, amended. Given a canvas, its context and an image, \<^verbatim>\<open>applyFilters\<close> draws for
  every value of the four adjustments, inside the nominal ranges or not. When all
  four are non-negative the filter in force is the list of the four functions with
  exactly these values; when one is negative the filter text does not parse, the
  assignment is ignored and the picture is drawn with no filter.
\<close>

theorem applyFilters_never_rejects:
  "applyFilters B (Some c0) (Some img) adj rot fl =
     Some \<lparr>obitmap = tabulate (bwidth img) (bheight img)
              (\<lambda>x y. apply_filter_list B
                 (if 0 \<le> brightness adj \<and> 0 \<le> contrast adj \<and> 0 \<le> saturation adj \<and> 0 \<le> blur adj
                  then [FBrightness (brightness adj), FContrast (contrast adj),
                        FSaturate (saturation adj), FBlur (blur adj)]
                  else [])
                 (code_layer B img rot fl) (int x) (int y)),
           cstate = \<lparr>filter_c =
                 (if 0 \<le> brightness adj \<and> 0 \<le> contrast adj \<and> 0 \<le> saturation adj \<and> 0 \<le> blur adj
                  then [FBrightness (brightness adj), FContrast (contrast adj),
                        FSaturate (saturation adj), FBlur (blur adj)]
                  else []),
              transform = identity_matrix\<rparr>,
           cstack = []\<rparr>"
proof -
  have "code_filter adj =
     (if 0 \<le> brightness adj \<and> 0 \<le> contrast adj \<and> 0 \<le> saturation adj \<and> 0 \<le> blur adj
      then [FBrightness (brightness adj), FContrast (contrast adj),
            FSaturate (saturation adj), FBlur (blur adj)]
      else [])"
    by (simp add: code_filter_def parse_filter_def)
  then show ?thesis
    by (simp only: applyFilters_Some onload_closed)
qed

theorem applyFilters_never_rejects_witness:
  "map_option (\<lambda>c. filter_c (cstate c))
     (applyFilters sample_browser (Some fresh_canvas) (Some (one_pixel (RGBA 100 100 100 255)))
        bright_250 0 no_flip)
   = Some [FBrightness 250, FContrast 100, FSaturate 100, FBlur 0]"
  using applyFilters_never_rejects
    [of sample_browser fresh_canvas "one_pixel (RGBA 100 100 100 255)" bright_250 0 no_flip]
  by (simp add: bright_250_def)

section \<open>C4: order of the photometric operations\<close>

text \<open>
  C4. For adjustments that parse (all non-negative, which the ranges [0,200] and [0,20]
  are), the canvas holds the drawn picture passed through brightness first, then
  contrast, then saturation, then blur, in this order.
\<close>

theorem filter_order:
  assumes "0 \<le> brightness adj" and "0 \<le> contrast adj" and "0 \<le> saturation adj" and "0 \<le> blur adj"
  shows "map_option obitmap (applyFilters B (Some c0) (Some img) adj rot fl) =
     Some (tabulate (bwidth img) (bheight img)
        (\<lambda>x y. fe_blur B (blur adj)
                 (fe_saturate (saturation adj)
                    (fe_contrast (contrast adj)
                       (fe_brightness (brightness adj) (code_layer B img rot fl))))
                 (int x) (int y)))"
  using assms
  by (simp add: applyFilters_Some onload_closed code_filter_parses apply_filter_four)

text \<open>
  Two instances in which each of the four does something. On an opaque pixel
  (170, 200, 20), brightness 150 gives (255, 255, 30), contrast 50 then gives
  (191, 191, 78), and saturation 200 then gives (199, 199, 0); each of the five other
  orders of the three gives another pixel (\<open>other_orders\<close>). With a blur of
  radius 2 on top, the example browser's kernel spreads the pixel over five and
  leaves (39, 39, 0) with alpha 51 in the premultiplied store.
\<close>

theorem filter_order_witness:
  "map_option obitmap
     (applyFilters sample_browser (Some fresh_canvas) (Some (one_pixel (RGBA 170 200 20 255)))
        all_three 0 no_flip)
   = Some (one_pixel (RGBA 199 199 0 255)) \<and>
   map_option obitmap
     (applyFilters sample_browser (Some fresh_canvas) (Some (one_pixel (RGBA 170 200 20 255)))
        all_four 0 no_flip)
   = Some (one_pixel (RGBA 39 39 0 51))"
proof
  show "map_option obitmap
     (applyFilters sample_browser (Some fresh_canvas) (Some (one_pixel (RGBA 170 200 20 255)))
        all_three 0 no_flip)
   = Some (one_pixel (RGBA 199 199 0 255))"
    using filter_order [of all_three sample_browser fresh_canvas
        "one_pixel (RGBA 170 200 20 255)" 0 no_flip]
    by (simp add: all_three_def tabulate_one fe_blur_def layer_all_three)
  show "map_option obitmap
     (applyFilters sample_browser (Some fresh_canvas) (Some (one_pixel (RGBA 170 200 20 255)))
        all_four 0 no_flip)
   = Some (one_pixel (RGBA 39 39 0 51))"
    using filter_order [of all_four sample_browser fresh_canvas
        "one_pixel (RGBA 170 200 20 255)" 0 no_flip]
    by (simp add: all_four_def tabulate_one blurred_all_three)
qed

section \<open>C5: identity at the defaults\<close>

text \<open>
  C5, as the specification states it, fails for a source that is not opaque: the
  canvas stores premultiplied 8-bit colour. With the initial adjustments, rotation
  and flips, the translucent pixel (200, 100, 50) with alpha 3 comes back as
  (170, 85, 85) with alpha 3.
\<close>

theorem translucent_counterexample:
  "drawn sample_browser (one_pixel (RGBA 200 100 50 3))
     (adjustments_s initial_app) (rotation initial_app) (flip_s initial_app)
     = Some (one_pixel (RGBA 170 85 85 3)) \<and>
   drawn sample_browser (one_pixel (RGBA 200 100 50 3))
     (adjustments_s initial_app) (rotation initial_app) (flip_s initial_app)
     \<noteq> Some (one_pixel (RGBA 200 100 50 3))"
proof -
  have "drawn sample_browser (one_pixel (RGBA 200 100 50 3)) default_adjustments 0 no_flip
          = Some (one_pixel (RGBA 170 85 85 3))"
    using drawn_one_pixel [of default_adjustments sample_browser "RGBA 200 100 50 3"]
    by (simp add: shown_translucent)
  then show ?thesis
    by (simp add: initial_parameters one_pixel_def)
qed

text \<open>
  C5, amended. For every well-formed opaque source, with the initial adjustments
  (100, 100, 100, 0), the initial rotation 0 and no flip, the picture on the canvas
  and the picture read back from it are the source bitmap.
\<close>

theorem identity_at_defaults:
  "wf_bitmap img \<Longrightarrow> opaque img \<Longrightarrow>
   map_option toDataURL
     (applyFilters B (Some c0) (Some img)
        (adjustments_s initial_app) (rotation initial_app) (flip_s initial_app)) = Some img \<and>
   map_option obitmap
     (applyFilters B (Some c0) (Some img)
        (adjustments_s initial_app) (rotation initial_app) (flip_s initial_app)) = Some img"
  by (simp add: applyFilters_drawn initial_parameters drawn_defaults stored_defaults)

theorem identity_at_defaults_witness:
  "wf_bitmap sample_2x2 \<and> opaque sample_2x2 \<and>
   map_option toDataURL
     (applyFilters sample_browser (Some fresh_canvas) (Some sample_2x2)
        (adjustments_s initial_app) (rotation initial_app) (flip_s initial_app))
   = Some sample_2x2"
  using identity_at_defaults [OF wf_sample_2x2 opaque_sample_2x2, of sample_browser fresh_canvas]
    wf_sample_2x2 opaque_sample_2x2
  by simp

section \<open>C6: flips are involutions\<close>

text \<open>
  C6, as the specification states it, fails for a source that is not opaque. Drawing
  the sample with one translucent pixel flipped, and drawing the result flipped
  again, puts the pixels back in their places but not with their colours: the
  translucent pixel has lost precision in the first draw.
\<close>

theorem flip_twice_counterexample:
  "Option.bind (drawn sample_browser translucent_2x1 default_adjustments 0 flip_h_only)
     (\<lambda>b'. drawn sample_browser b' default_adjustments 0 flip_h_only)
     = Some \<lparr>bwidth = 2, bheight = 1, bdata = [[RGBA 170 85 85 3, RGBA 10 0 0 255]]\<rparr> \<and>
   Option.bind (drawn sample_browser translucent_2x1 default_adjustments 0 flip_h_only)
     (\<lambda>b'. drawn sample_browser b' default_adjustments 0 flip_h_only)
     \<noteq> Some translucent_2x1"
proof -
  have "Option.bind (drawn sample_browser translucent_2x1 default_adjustments 0 flip_h_only)
     (\<lambda>b'. drawn sample_browser b' default_adjustments 0 flip_h_only)
     = Some \<lparr>bwidth = 2, bheight = 1, bdata = [[RGBA 170 85 85 3, RGBA 10 0 0 255]]\<rparr>"
    by (simp only: drawn_translucent_flip_h Option.bind.simps drawn_translucent_flip_h_again)
  then show ?thesis
    by (simp add: translucent_2x1_def)
qed

text \<open>
  C6, amended. For every well-formed opaque bitmap, drawing it with the horizontal
  flip and drawing the result again with the horizontal flip gives back the bitmap,
  pixel for pixel, and the same holds for the vertical flip. For every state,
  whatever the image, two clicks on the same flip button restore the state, and the
  canvas then shows what a redraw of the unchanged state shows.
\<close>

theorem flip_involution:
  "(wf_bitmap b \<and> opaque b \<longrightarrow>
      Option.bind (drawn B b default_adjustments 0 flip_h_only)
        (\<lambda>b'. drawn B b' default_adjustments 0 flip_h_only) = Some b \<and>
      Option.bind (drawn B b default_adjustments 0 flip_v_only)
        (\<lambda>b'. drawn B b' default_adjustments 0 flip_v_only) = Some b) \<and>
   update FlipHClick (update FlipHClick s) = s \<and>
   update FlipVClick (update FlipVClick s) = s \<and>
   canvasRef (step B FlipHClick (step B FlipHClick s)) = canvasRef (effect B s) \<and>
   canvasRef (step B FlipVClick (step B FlipVClick s)) = canvasRef (effect B s)"
proof (intro conjI impI)
  assume a: "wf_bitmap b \<and> opaque b"
  then show "Option.bind (drawn B b default_adjustments 0 flip_h_only)
        (\<lambda>b'. drawn B b' default_adjustments 0 flip_h_only) = Some b"
    by (simp add: drawn_flip_h wf_spec_flip opaque_spec_flip spec_flip_h_twice)
  from a show "Option.bind (drawn B b default_adjustments 0 flip_v_only)
        (\<lambda>b'. drawn B b' default_adjustments 0 flip_v_only) = Some b"
    by (simp add: drawn_flip_v wf_spec_flip opaque_spec_flip spec_flip_v_twice)
next
  show "update FlipHClick (update FlipHClick s) = s" by (rule flip_clicks_restore)
  show "update FlipVClick (update FlipVClick s) = s" by (rule flip_clicks_restore)
  show "canvasRef (step B FlipHClick (step B FlipHClick s)) = canvasRef (effect B s)"
    by (rule step_twice_canvas) (rule flip_clicks_restore)
  show "canvasRef (step B FlipVClick (step B FlipVClick s)) = canvasRef (effect B s)"
    by (rule step_twice_canvas) (rule flip_clicks_restore)
qed

theorem flip_involution_witness:
  "drawn sample_browser sample_2x2 default_adjustments 0 flip_h_only =
     Some \<lparr>bwidth = 2, bheight = 2,
           bdata = [[RGBA 20 0 0 255, RGBA 10 0 0 255], [RGBA 40 0 0 255, RGBA 30 0 0 255]]\<rparr> \<and>
   drawn sample_browser sample_2x2 default_adjustments 0 flip_v_only =
     Some \<lparr>bwidth = 2, bheight = 2,
           bdata = [[RGBA 30 0 0 255, RGBA 40 0 0 255], [RGBA 10 0 0 255, RGBA 20 0 0 255]]\<rparr> \<and>
   Option.bind (drawn sample_browser sample_2x2 default_adjustments 0 flip_h_only)
     (\<lambda>b'. drawn sample_browser b' default_adjustments 0 flip_h_only) = Some sample_2x2 \<and>
   Option.bind (drawn sample_browser sample_2x2 default_adjustments 0 flip_v_only)
     (\<lambda>b'. drawn sample_browser b' default_adjustments 0 flip_v_only) = Some sample_2x2"
proof -
  have h: "drawn sample_browser sample_2x2 default_adjustments 0 flip_h_only =
     Some \<lparr>bwidth = 2, bheight = 2,
           bdata = [[RGBA 20 0 0 255, RGBA 10 0 0 255], [RGBA 40 0 0 255, RGBA 30 0 0 255]]\<rparr>"
    by (simp add: drawn_flip_h wf_sample_2x2 opaque_sample_2x2)
       (simp add: spec_flip_h_def tabulate_def px_def sample_2x2_def upt_2)
  have v: "drawn sample_browser sample_2x2 default_adjustments 0 flip_v_only =
     Some \<lparr>bwidth = 2, bheight = 2,
           bdata = [[RGBA 30 0 0 255, RGBA 40 0 0 255], [RGBA 10 0 0 255, RGBA 20 0 0 255]]\<rparr>"
    by (simp add: drawn_flip_v wf_sample_2x2 opaque_sample_2x2)
       (simp add: spec_flip_v_def tabulate_def px_def sample_2x2_def upt_2)
  have ok: "wf_bitmap sample_2x2 \<and> opaque sample_2x2"
    using wf_sample_2x2 opaque_sample_2x2 by simp
  from flip_involution [of sample_2x2 sample_browser, THEN conjunct1, rule_format, OF ok]
  have "Option.bind (drawn sample_browser sample_2x2 default_adjustments 0 flip_h_only)
     (\<lambda>b'. drawn sample_browser b' default_adjustments 0 flip_h_only) = Some sample_2x2 \<and>
   Option.bind (drawn sample_browser sample_2x2 default_adjustments 0 flip_v_only)
     (\<lambda>b'. drawn sample_browser b' default_adjustments 0 flip_v_only) = Some sample_2x2" .
  with h v show ?thesis by (intro conjI) (elim conjE, assumption)+
qed

section \<open>C7: the rotation state\<close>

text \<open>
  C7. Whatever the user has done since the initial state, the rotation is one of 0, 90,
  180 and 270, and a click on Rotate takes it to the rotation plus 90 modulo 360.
\<close>

theorem rotation_quarter_turns:
  "rotation (run B es initial_app) \<in> {0, 90, 180, 270} \<and>
   rotation (step B RotateClick (run B es initial_app))
     = (rotation (run B es initial_app) + 90) mod 360"
proof -
  have r: "rotation (run B es initial_app) \<in> {0, 90, 180, 270}"
    by (rule rotation_run) (simp add: initial_app_def)
  then have "(rotation (run B es initial_app) + 90) smod 360
               = (rotation (run B es initial_app) + 90) mod 360"
    by (auto simp: signed_modulo_int_def)
  with r show ?thesis
    by (simp add: rotation_step_eq)
qed

theorem rotation_quarter_turns_witness:
  "rotation (run sample_browser [RotateClick, FlipHClick, RotateClick, RotateClick] initial_app) = 270 \<and>
   rotation (step sample_browser RotateClick
      (run sample_browser [RotateClick, FlipHClick, RotateClick, RotateClick] initial_app)) = 0"
proof -
  have "rotation (run sample_browser [RotateClick, FlipHClick, RotateClick, RotateClick] initial_app) = 270"
    by (simp add: run_def rotation_step_eq initial_app_def signed_modulo_int_def)
  then show ?thesis
    using rotation_quarter_turns
      [of sample_browser "[RotateClick, FlipHClick, RotateClick, RotateClick]"]
    by simp
qed

section \<open>C8: every run starts from the source\<close>

text \<open>
  C8. After any sequence of events the canvas holds what one run on a fresh canvas
  computes from the stored image and the current parameters; a run does not depend on
  what the canvas held before; and the stored image changes only when a file is
  uploaded, never to something that was drawn.
\<close>

theorem rerun_from_source:
  "canvasRef (run B es initial_app) =
     applyFilters B (Some fresh_canvas) (image_s (run B es initial_app))
       (adjustments_s (run B es initial_app)) (rotation (run B es initial_app))
       (flip_s (run B es initial_app)) \<and>
   applyFilters B (Some c1) image0 adj rot fl = applyFilters B (Some c2) image0 adj rot fl \<and>
   image_s (step B e s) = (case e of ImageUpload (Some b) \<Rightarrow> Some b | _ \<Rightarrow> image_s s)"
  using run_canvas [of B es] applyFilters_any_canvas [of B c1 image0 adj rot fl c2] image_step [of B e s]
  by (intro conjI)

text \<open>
  After an upload and two horizontal flips the canvas shows the uploaded picture
  itself.
\<close>

theorem rerun_from_source_witness:
  "map_option obitmap
     (canvasRef (run sample_browser [ImageUpload (Some sample_2x2), FlipHClick, FlipHClick] initial_app))
   = Some sample_2x2"
proof -
  let ?s = "run sample_browser [ImageUpload (Some sample_2x2), FlipHClick, FlipHClick] initial_app"
  have s: "image_s ?s = Some sample_2x2" "adjustments_s ?s = default_adjustments"
    "rotation ?s = 0" "flip_s ?s = no_flip"
    by (simp_all add: run_def step_fields default_adjustments_def no_flip_def initial_app_def)
  from rerun_from_source [of sample_browser
      "[ImageUpload (Some sample_2x2), FlipHClick, FlipHClick]", THEN conjunct1]
  have "canvasRef ?s =
      applyFilters sample_browser (Some fresh_canvas) (Some sample_2x2) default_adjustments 0 no_flip"
    by (simp only: s)
  then show ?thesis
    by (simp add: stored_defaults wf_sample_2x2 opaque_sample_2x2)
qed

section \<open>C9: brightness clamps\<close>

text \<open>
  C9. Brightness 200 applied to an opaque pixel (200, 200, 200), with the other
  sliders at their defaults, gives (255, 255, 255), on the canvas and in the
  download: the browser's transfer table for \<^verbatim>\<open>brightness(200%)\<close> stops at the
  8-bit maximum instead of running over it.
\<close>

theorem brightness_clamps:
  "drawn B (one_pixel (RGBA 200 200 200 255)) bright_200 0 no_flip
     = Some (one_pixel (RGBA 255 255 255 255)) \<and>
   map_option obitmap
     (applyFilters B (Some c0) (Some (one_pixel (RGBA 200 200 200 255))) bright_200 0 no_flip)
     = Some (one_pixel (RGBA 255 255 255 255))"
proof -
  have s: "shown 200 100 100 (RGBA 200 200 200 255) = RGBA 255 255 255 255"
    by (simp add: pixel_defs)
  have c: "pixel_chain 200 100 100 (premultiply (RGBA 200 200 200 255)) = RGBA 255 255 255 255"
    by (simp add: pixel_defs)
  show ?thesis
    using drawn_one_pixel [of bright_200 B "RGBA 200 200 200 255"]
      stored_one_pixel [of bright_200 B c0 "RGBA 200 200 200 255"]
    by (simp add: bright_200_def s c)
qed

theorem brightness_clamps_witness:
  "drawn sample_browser (one_pixel (RGBA 200 200 200 255)) bright_200 0 no_flip
     = Some \<lparr>bwidth = 1, bheight = 1, bdata = [[RGBA 255 255 255 255]]\<rparr>"
  using brightness_clamps [of sample_browser fresh_canvas] by (simp add: one_pixel_def)

section \<open>C10: one slider at a time\<close>

text \<open>
  C10. A slider change through \<^verbatim>\<open>handleAdjustment\<close> stores the new value under the
  slider's own name and leaves the three other adjustment parameters as they were.
\<close>

theorem handleAdjustment_frame:
  "adj_get name (handleAdjustment name v prev) = v \<and>
   (other \<noteq> name \<longrightarrow> adj_get other (handleAdjustment name v prev) = adj_get other prev)"
  by (cases name; cases other) simp_all

theorem handleAdjustment_frame_witness:
  "K_blur \<noteq> K_contrast \<and>
   adj_get K_blur (handleAdjustment K_contrast 150
      \<lparr>brightness = 100, contrast = 100, saturation = 100, blur = 7\<rparr>) = 7"
  using handleAdjustment_frame [of K_contrast 150
      "\<lparr>brightness = 100, contrast = 100, saturation = 100, blur = 7\<rparr>" K_blur]
  by simp

end
